theory Spec2Isabelle
  imports Main
begin

section \<open>The list-fetching hook \<open>useList\<close>\<close>

text \<open>
  A shallow embedding of \<^verbatim>\<open>packages/core/src/hooks/data/useList.ts\<close>. The hook is a
  linear adapter: it merges current and deprecated options, resolves a pagination
  descriptor, registers a live-update subscription, hands a query key, a query function
  and a set of callbacks to the query library, and returns the library's result with one
  field added. Each local constant of the hook body is a definition of the same name
  here; the calls the hook makes to its collaborators are values (the arguments it
  passes), and the collaborators themselves are parameters collected in the record
  \<open>Deps\<close>.

  Numbers are JavaScript numbers in the source; page numbers, page sizes, totals and
  status codes are modelled as \<open>int\<close>. An optional value (\<^verbatim>\<open>T | undefined\<close>) is an
  \<open>option\<close>. The type variables stand for the types the hook only passes through:
  \<open>'r\<close> the record type (\<^verbatim>\<open>TQueryFnData\<close>, and \<^verbatim>\<open>TData\<close>, which defaults to it),
  \<open>'f\<close> \<^verbatim>\<open>CrudFilters\<close>, \<open>'s\<close> \<^verbatim>\<open>CrudSorting\<close>, and \<open>'a\<close> the values typed
  \<^verbatim>\<open>any\<close> or \<^verbatim>\<open>unknown\<close>.
\<close>

subsection \<open>Data model\<close>

text \<open>
  Modelled from the spec: the \<^verbatim>\<open>mode\<close> of the \<^verbatim>\<open>Pagination\<close> interface, declared in
  \<^verbatim>\<open>../../interfaces\<close>, which is not among the sources. The spec names the two modes
  "server vs. client"; the hook compares the mode with the literals \<^verbatim>\<open>"server"\<close> and
  \<^verbatim>\<open>"client"\<close>.
\<close>

datatype PaginationMode = server | client

text \<open>\<^verbatim>\<open>Pagination\<close>, every field optional, as the caller writes it.\<close>

record Pagination =
  p_current :: "int option"
  p_pageSize :: "int option"
  p_mode :: "PaginationMode option"

text \<open>\<^verbatim>\<open>Required<Pagination>\<close>, what \<^verbatim>\<open>handlePaginationParams\<close> returns.\<close>

record RequiredPagination =
  current :: int
  pageSize :: int
  mode :: PaginationMode

record HandlePaginationParamsProps =
  hp_pagination :: "Pagination option"
  hp_configPagination :: "Pagination option"
  hp_hasPagination :: "bool option"

text \<open>\<^verbatim>\<open>UseListConfig\<close>, the deprecated \<^verbatim>\<open>config\<close> property.\<close>

record ('f, 's) UseListConfig =
  c_pagination :: "Pagination option"
  c_hasPagination :: "bool option"
  c_sort :: "'s option"
  c_filters :: "'f option"

text \<open>
  \<^verbatim>\<open>GetListResponse\<close>: the envelope \<^verbatim>\<open>{data, total}\<close>; \<open>others\<close> holds any further
  field of the object, which the spread \<^verbatim>\<open>...data\<close> carries along.
\<close>

record ('r, 'a) GetListResponse =
  data :: "'r list"
  total :: int
  others :: "string \<rightharpoonup> 'a"

record HttpError =
  message :: string
  statusCode :: int

record IResourceItem =
  name :: string

text \<open>What \<^verbatim>\<open>useResource(resourceFromProp)\<close> returns.\<close>

record ResourceCtx =
  r_resources :: "IResourceItem list"
  r_resource :: "IResourceItem option"
  r_identifier :: "string option"

text \<open>The context the query library hands to the query function.\<close>

record 'a QueryContext =
  queryKey :: "'a list"
  pageParam :: "'a option"
  signal :: "'a option"

text \<open>
  \<^verbatim>\<open>MetaQuery\<close>: an object with arbitrary keys, one of which, \<^verbatim>\<open>queryContext\<close>, the
  query function sets.
\<close>

datatype 'a MetaValue = MetaAny 'a | MetaQueryContext "'a QueryContext"

type_synonym 'a MetaQuery = "string \<rightharpoonup> 'a MetaValue"

text \<open>The argument of the data provider's \<^verbatim>\<open>getList\<close>.\<close>

record ('f, 's, 'a) GetListParams =
  gl_resource :: string
  gl_pagination :: RequiredPagination
  gl_hasPagination :: bool
  gl_filters :: "'f option"
  gl_sort :: "'s option"
  gl_sorters :: "'s option"
  gl_meta :: "'a MetaQuery"
  gl_metaData :: "'a MetaQuery"

text \<open>\<^verbatim>\<open>notificationValues\<close>, handed to a notification callback.\<close>

record ('f, 's, 'a) NotificationValues =
  nv_meta :: "'a MetaQuery"
  nv_metaData :: "'a MetaQuery"
  nv_filters :: "'f option"
  nv_hasPagination :: bool
  nv_pagination :: RequiredPagination
  nv_sorters :: "'s option"
  nv_config :: "('f, 's) UseListConfig"

text \<open>
  A notification setting is \<^verbatim>\<open>OpenNotificationParams | false | undefined\<close>, or a
  function that returns one from the payload, the values and the identifier.
\<close>

record OpenNotificationParams =
  n_key :: "string option"
  n_message :: string
  n_description :: "string option"
  n_type :: string

datatype NotificationConfig =
  NotificationUndefined | NotificationFalse | NotificationParams OpenNotificationParams

datatype ('p, 'v) NotificationProp =
  NotificationStatic NotificationConfig
| NotificationFunction "'p \<Rightarrow> 'v \<Rightarrow> string option \<Rightarrow> NotificationConfig"

text \<open>
  What the hook's callbacks do, in the order they do it: the calls to the auth
  error-checking callback, to the caller's own callbacks, to the notification dispatcher
  (with the configuration and the fallback notification) and to the data provider.
\<close>

datatype ('r, 'f, 's, 'a) Effect =
  CheckError HttpError
| QueryOptionsOnError HttpError
| QueryOptionsOnSuccess "('r, 'a) GetListResponse"
| HandleNotification NotificationConfig "OpenNotificationParams option"
| GetList string "('f, 's, 'a) GetListParams"

text \<open>The part of \<^verbatim>\<open>UseQueryOptions\<close> the hook reads.\<close>

record ('r, 'a) QueryOptions =
  q_enabled :: "bool option"
  q_select :: "(('r, 'a) GetListResponse \<Rightarrow> ('r, 'a) GetListResponse) option"
  q_onSuccess :: bool
  q_onError :: bool

text \<open>
  \<open>q_onSuccess\<close> and \<open>q_onError\<close> say whether the caller supplied the callback; calling
  it is the effect \<open>QueryOptionsOnSuccess\<close> or \<open>QueryOptionsOnError\<close>.
\<close>

record 'a OvertimeOptions =
  o_interval :: "int option"
  o_onInterval :: "'a option"

text \<open>A value of the subscription's \<^verbatim>\<open>params\<close> object.\<close>

datatype ('f, 's, 'a) ParamValue =
  ParamMeta "'a MetaQuery"
| ParamPagination RequiredPagination
| ParamBool bool
| ParamSorters "'s option"
| ParamFilters "'f option"
| ParamString string
| ParamAny 'a

text \<open>\<^verbatim>\<open>UseListProps\<close>, the hook's argument.\<close>

record ('r, 'f, 's, 'a) UseListProps =
  resourceFromProp :: "string option"
  config :: "('f, 's) UseListConfig option"
  filters :: "'f option"
  hasPagination :: "bool option"
  pagination :: "Pagination option"
  sorters :: "'s option"
  queryOptions :: "('r, 'a) QueryOptions option"
  successNotification ::
    "(('r, 'a) GetListResponse, ('f, 's, 'a) NotificationValues) NotificationProp"
  errorNotification :: "(HttpError, ('f, 's, 'a) NotificationValues) NotificationProp"
  meta :: "'a MetaQuery option"
  metaData :: "'a MetaQuery option"
  liveMode :: "string option"
  onLiveEvent :: "'a option"
  liveParams :: "(string \<rightharpoonup> ('f, 's, 'a) ParamValue) option"
  dataProviderName :: "string option"
  overtimeOptions :: "'a OvertimeOptions option"

text \<open>The argument of \<^verbatim>\<open>useResourceSubscription\<close>.\<close>

record ('f, 's, 'a) SubscriptionProps =
  sub_resource :: "string option"
  sub_types :: "string list"
  sub_params :: "string \<rightharpoonup> ('f, 's, 'a) ParamValue"
  sub_channel :: string
  sub_enabled :: bool
  sub_liveMode :: "string option"
  sub_onLiveEvent :: "'a option"

text \<open>The object handed to \<^verbatim>\<open>queryKey.list\<close>.\<close>

record ('f, 's) ListKeyConfig =
  k_filters :: "'f option"
  k_hasPagination :: bool
  k_pagination :: "RequiredPagination option"
  k_sorters :: "'s option"
  k_sort :: "'s option"

record 'a LoadingOvertimeProps =
  lo_isLoading :: bool
  lo_interval :: "int option"
  lo_onInterval :: "'a option"

text \<open>
  The query library's result object: \<open>qr_data\<close> and \<open>isFetching\<close> are the fields the
  hook and its callers name, \<open>qr_rest\<close> the remaining status fields.
\<close>

record ('r, 'a) QueryObserverResult =
  qr_data :: "('r, 'a) GetListResponse option"
  isFetching :: bool
  qr_rest :: "string \<rightharpoonup> 'a"

record Overtime =
  elapsedTime :: "int option"

record ('r, 'a) UseListReturn = "('r, 'a) QueryObserverResult" +
  overtime :: Overtime

text \<open>
  The three arguments of \<^verbatim>\<open>useQuery\<close>: the key, the query function, and the options
  (the caller's \<^verbatim>\<open>queryOptions\<close> spread first, then the four the hook sets).
\<close>

record ('r, 'f, 's, 'a) UseQueryArgs =
  uq_queryKey :: "'a list"
  uq_queryFn :: "'a QueryContext \<Rightarrow> HttpError + ('r, 'a) GetListResponse"
  uq_queryOptions :: "('r, 'a) QueryOptions option"
  uq_enabled :: bool
  uq_select :: "('r, 'a) GetListResponse \<Rightarrow> ('r, 'a) GetListResponse"
  uq_onSuccess :: "('r, 'a) GetListResponse \<Rightarrow> ('r, 'f, 's, 'a) Effect list"
  uq_onError :: "HttpError \<Rightarrow> ('r, 'f, 's, 'a) Effect list"

text \<open>
  The hook's collaborators, none of which is among the sources: the hooks and helpers it
  imports, each as the function the hook calls.
\<close>

record ('r, 'f, 's, 'a) Deps =
  useResource :: "string option \<Rightarrow> ResourceCtx"
  dataProvider :: "string \<Rightarrow> ('f, 's, 'a) GetListParams \<Rightarrow> HttpError + ('r, 'a) GetListResponse"
  translate :: "string \<Rightarrow> int \<Rightarrow> string \<Rightarrow> string"
  getMeta :: "IResourceItem option \<Rightarrow> 'a MetaQuery option \<Rightarrow> 'a MetaQuery"
  pickDataProvider :: "string option \<Rightarrow> string option \<Rightarrow> IResourceItem list \<Rightarrow> string"
  handlePaginationParams :: "HandlePaginationParamsProps \<Rightarrow> RequiredPagination"
  queryKeys :: "string option \<Rightarrow> string \<Rightarrow> 'a MetaQuery option \<Rightarrow> ('f, 's) ListKeyConfig \<Rightarrow> 'a list"
  useLoadingOvertime :: "'a LoadingOvertimeProps \<Rightarrow> int option"
  useQuery :: "('r, 'f, 's, 'a) UseQueryArgs \<Rightarrow> ('r, 'a) QueryObserverResult"

subsection \<open>JavaScript primitives the hook uses\<close>

text \<open>
  \<^verbatim>\<open>Array.prototype.slice(start, end)\<close> on integer arguments: a negative index counts
  from the end of the array, both indices are clamped to the array, and the result is
  empty when the start is not before the end.
\<close>

definition slice :: "'x list \<Rightarrow> int \<Rightarrow> int \<Rightarrow> 'x list" where
  "slice xs start end' =
     (let len = int (length xs);
          k = (if start < 0 then max (len + start) 0 else min start len);
          final = (if end' < 0 then max (len + end') 0 else min end' len)
      in take (nat (final - k)) (drop (nat k) xs))"

text \<open>The decimal digits of a natural number.\<close>

definition digit :: "nat \<Rightarrow> char" where
  "digit n = ''0123456789'' ! n"

function digits :: "nat \<Rightarrow> string" where
  "digits n = (if n < 10 then [digit n] else digits (n div 10) @ [digit (n mod 10)])"
  by pat_completeness auto
termination
  by (relation "measure (\<lambda>n. n)") auto

declare digits.simps [simp del]

text \<open>
  \<^verbatim>\<open>Number::toString\<close>, as a template literal applies it, on the integers. A number is
  a double: an integer with more than 53 significant bits is not one, and \<open>toNumber\<close>
  rounds it to the nearest that is (ties to the even one), as a numeric literal is
  read. The string shows the fewest decimal digits \<open>s\<close> (\<open>k\<close> of them) such that
  \<open>s * 10 ^ (n - k)\<close> still rounds to the number, and of several such \<open>s\<close> the one
  closest to it: so \<open>2 ^ 60\<close> prints as \<^verbatim>\<open>1152921504606847000\<close>. Up to \<open>n = 21\<close> the
  digits are followed by zeros; beyond, the string is in exponent form, so \<open>10 ^ 21\<close>
  prints as \<^verbatim>\<open>1e+21\<close>; from \<open>2 ^ 1024\<close> the number is \<^verbatim>\<open>Infinity\<close>.
\<close>

fun bitLength :: "nat \<Rightarrow> nat" where
  "bitLength n = (if n = 0 then 0 else Suc (bitLength (n div 2)))"

declare bitLength.simps [simp del]

definition toNumber :: "nat \<Rightarrow> nat" where
  "toNumber v =
     (let b = bitLength v
      in if b \<le> 53 then v
         else let e = b - 53; q = v div 2 ^ e; r = v mod 2 ^ e; h = 2 ^ (e - 1)
              in if h < r \<or> (r = h \<and> odd q) then (q + 1) * 2 ^ e else q * 2 ^ e)"

text \<open>The pairs \<open>(s, n)\<close> with \<open>k\<close> digits in \<open>s\<close> that round to \<open>x\<close>.\<close>

definition candidates :: "nat \<Rightarrow> nat \<Rightarrow> (nat \<times> nat) list" where
  "candidates x k =
     (let d = length (digits x)
      in [(s, n). n \<leftarrow> [d, Suc d],
                  s \<leftarrow> [x div 10 ^ (n - k), Suc (x div 10 ^ (n - k))],
                  10 ^ (k - 1) \<le> s \<and> s < 10 ^ k \<and> toNumber (s * 10 ^ (n - k)) = x])"

definition distance :: "nat \<Rightarrow> nat \<Rightarrow> nat \<times> nat \<Rightarrow> nat" where
  "distance x k c =
     (let v = fst c * 10 ^ (snd c - k) in if x \<le> v then v - x else x - v)"

text \<open>Of two candidates the closer one, and of two equally close the one with even \<open>s\<close>.\<close>

definition closer :: "nat \<Rightarrow> nat \<Rightarrow> nat \<times> nat \<Rightarrow> nat \<times> nat \<Rightarrow> nat \<times> nat" where
  "closer x k b c =
     (if distance x k c < distance x k b
         \<or> (distance x k c = distance x k b \<and> even (fst c) \<and> odd (fst b))
      then c else b)"

text \<open>The triple \<open>(k, s, n)\<close> of the string, \<open>k\<close> the least with a candidate.\<close>

definition shortest :: "nat \<Rightarrow> nat \<times> nat \<times> nat" where
  "shortest x =
     (case [k \<leftarrow> [1 ..< Suc (length (digits x))]. candidates x k \<noteq> []] of
        [] \<Rightarrow> (length (digits x), x, length (digits x))
      | k # ks \<Rightarrow>
          (case candidates x k of
             [] \<Rightarrow> (length (digits x), x, length (digits x))
           | c # cs \<Rightarrow> (k, foldl (closer x k) c cs)))"

definition numberString :: "nat \<Rightarrow> string" where
  "numberString x =
     (if x = 0 then ''0''
      else case shortest x of
        (k, s, n) \<Rightarrow>
          if n \<le> 21 then digits s @ replicate (n - k) (CHR ''0'')
          else if k = 1 then digits s @ ''e+'' @ digits (n - 1)
          else (case digits s of
                  [] \<Rightarrow> []
                | c # cs \<Rightarrow> c # CHR ''.'' # cs @ ''e+'' @ digits (n - 1)))"

definition numberToString :: "int \<Rightarrow> string" where
  "numberToString i =
     (let x = toNumber (nat \<bar>i\<bar>)
      in if 2 ^ 1024 \<le> x then (if i < 0 then ''-Infinity'' else ''Infinity'')
         else (if i < 0 then ''-'' else []) @ numberString x)"

text \<open>A possibly undefined string inside a template literal.\<close>

definition template :: "string option \<Rightarrow> string" where
  "template v = (case v of None \<Rightarrow> ''undefined'' | Some s \<Rightarrow> s)"

subsection \<open>Option merging\<close>

text \<open>
  Modelled from the spec: \<^verbatim>\<open>pickNotDeprecated\<close>, imported from
  \<^verbatim>\<open>@definitions/helpers\<close>, which is not among the sources. The spec: "merge deprecated
  and current option names (last-writer-wins over a fixed precedence)"; the hook always
  passes the current option first and the deprecated one second, and the first that is
  defined is picked.
\<close>

definition pickNotDeprecated :: "'x option \<Rightarrow> 'x option \<Rightarrow> 'x option" where
  "pickNotDeprecated current' deprecated =
     (case current' of Some v \<Rightarrow> Some v | None \<Rightarrow> deprecated)"

subsection \<open>The hook body\<close>

definition resource :: "('r, 'f, 's, 'a) Deps \<Rightarrow> ('r, 'f, 's, 'a) UseListProps \<Rightarrow> IResourceItem option" where
  "resource deps props = r_resource (useResource deps (resourceFromProp props))"

definition identifier' :: "('r, 'f, 's, 'a) Deps \<Rightarrow> ('r, 'f, 's, 'a) UseListProps \<Rightarrow> string option" where
  "identifier' deps props = r_identifier (useResource deps (resourceFromProp props))"

text \<open>\<^verbatim>\<open>resource?.name\<close>\<close>

definition resourceName :: "('r, 'f, 's, 'a) Deps \<Rightarrow> ('r, 'f, 's, 'a) UseListProps \<Rightarrow> string option" where
  "resourceName deps props = map_option name (resource deps props)"

definition pickedDataProvider :: "('r, 'f, 's, 'a) Deps \<Rightarrow> ('r, 'f, 's, 'a) UseListProps \<Rightarrow> string" where
  "pickedDataProvider deps props =
     pickDataProvider deps (identifier' deps props) (dataProviderName props)
       (r_resources (useResource deps (resourceFromProp props)))"

definition preferredMeta :: "('r, 'f, 's, 'a) UseListProps \<Rightarrow> 'a MetaQuery option" where
  "preferredMeta props = pickNotDeprecated (meta props) (metaData props)"

definition prefferedFilters :: "('r, 'f, 's, 'a) UseListProps \<Rightarrow> 'f option" where
  "prefferedFilters props =
     pickNotDeprecated (filters props) (Option.bind (config props) c_filters)"

definition prefferedSorters :: "('r, 'f, 's, 'a) UseListProps \<Rightarrow> 's option" where
  "prefferedSorters props =
     pickNotDeprecated (sorters props) (Option.bind (config props) c_sort)"

definition prefferedHasPagination :: "('r, 'f, 's, 'a) UseListProps \<Rightarrow> bool option" where
  "prefferedHasPagination props =
     pickNotDeprecated (hasPagination props) (Option.bind (config props) c_hasPagination)"

definition prefferedPagination :: "('r, 'f, 's, 'a) Deps \<Rightarrow> ('r, 'f, 's, 'a) UseListProps \<Rightarrow> RequiredPagination" where
  "prefferedPagination deps props =
     handlePaginationParams deps
       \<lparr> hp_pagination = pagination props,
         hp_configPagination = Option.bind (config props) c_pagination,
         hp_hasPagination = prefferedHasPagination props \<rparr>"

definition isServerPagination :: "('r, 'f, 's, 'a) Deps \<Rightarrow> ('r, 'f, 's, 'a) UseListProps \<Rightarrow> bool" where
  "isServerPagination deps props = (mode (prefferedPagination deps props) = server)"

definition combinedMeta :: "('r, 'f, 's, 'a) Deps \<Rightarrow> ('r, 'f, 's, 'a) UseListProps \<Rightarrow> 'a MetaQuery" where
  "combinedMeta deps props = getMeta deps (resource deps props) (preferredMeta props)"

text \<open>\<^verbatim>\<open>{...config, sort: prefferedSorters}\<close>\<close>

definition notificationValues :: "('r, 'f, 's, 'a) Deps \<Rightarrow> ('r, 'f, 's, 'a) UseListProps \<Rightarrow> ('f, 's, 'a) NotificationValues" where
  "notificationValues deps props =
     \<lparr> nv_meta = combinedMeta deps props,
       nv_metaData = combinedMeta deps props,
       nv_filters = prefferedFilters props,
       nv_hasPagination = isServerPagination deps props,
       nv_pagination = prefferedPagination deps props,
       nv_sorters = prefferedSorters props,
       nv_config =
         (case config props of
            None \<Rightarrow> \<lparr> c_pagination = None, c_hasPagination = None,
                      c_sort = prefferedSorters props, c_filters = None \<rparr>
          | Some c \<Rightarrow> c\<lparr> c_sort := prefferedSorters props \<rparr>) \<rparr>"

text \<open>\<^verbatim>\<open>queryOptions?.enabled\<close> and \<^verbatim>\<open>queryOptions?.select\<close>\<close>

definition queryOptions_enabled :: "('r, 'f, 's, 'a) UseListProps \<Rightarrow> bool option" where
  "queryOptions_enabled props = Option.bind (queryOptions props) q_enabled"

definition queryOptions_select :: "('r, 'f, 's, 'a) UseListProps \<Rightarrow> (('r, 'a) GetListResponse \<Rightarrow> ('r, 'a) GetListResponse) option" where
  "queryOptions_select props = Option.bind (queryOptions props) q_select"

definition isEnabled :: "('r, 'f, 's, 'a) UseListProps \<Rightarrow> bool" where
  "isEnabled props =
     (queryOptions_enabled props = None \<or> queryOptions_enabled props = Some True)"

text \<open>\<^verbatim>\<open>queryKeys(identifier, pickedDataProvider, preferredMeta)\<close>, whose \<^verbatim>\<open>list\<close> builds the key.\<close>

definition queryKey_list :: "('r, 'f, 's, 'a) Deps \<Rightarrow> ('r, 'f, 's, 'a) UseListProps \<Rightarrow> ('f, 's) ListKeyConfig \<Rightarrow> 'a list" where
  "queryKey_list deps props =
     queryKeys deps (identifier' deps props) (pickedDataProvider deps props) (preferredMeta props)"

definition getList :: "('r, 'f, 's, 'a) Deps \<Rightarrow> ('r, 'f, 's, 'a) UseListProps \<Rightarrow> ('f, 's, 'a) GetListParams \<Rightarrow> HttpError + ('r, 'a) GetListResponse" where
  "getList deps props = dataProvider deps (pickedDataProvider deps props)"

text \<open>
  The \<^verbatim>\<open>params\<close> of the subscription: eight keys the hook sets, then the spread
  \<^verbatim>\<open>...liveParams\<close>, whose keys replace the hook's.
\<close>

definition subscriptionParams :: "('r, 'f, 's, 'a) Deps \<Rightarrow> ('r, 'f, 's, 'a) UseListProps \<Rightarrow> string \<rightharpoonup> ('f, 's, 'a) ParamValue" where
  "subscriptionParams deps props =
     [ ''meta'' \<mapsto> ParamMeta (combinedMeta deps props),
       ''metaData'' \<mapsto> ParamMeta (combinedMeta deps props),
       ''pagination'' \<mapsto> ParamPagination (prefferedPagination deps props),
       ''hasPagination'' \<mapsto> ParamBool (isServerPagination deps props),
       ''sort'' \<mapsto> ParamSorters (prefferedSorters props),
       ''sorters'' \<mapsto> ParamSorters (prefferedSorters props),
       ''filters'' \<mapsto> ParamFilters (prefferedFilters props),
       ''subscriptionType'' \<mapsto> ParamString ''useList'' ]
     ++ (case liveParams props of None \<Rightarrow> Map.empty | Some lp \<Rightarrow> lp)"

text \<open>The hook body calls \<^verbatim>\<open>useResourceSubscription\<close> once, with this argument.\<close>

definition useResourceSubscription :: "('r, 'f, 's, 'a) Deps \<Rightarrow> ('r, 'f, 's, 'a) UseListProps \<Rightarrow> ('f, 's, 'a) SubscriptionProps list" where
  "useResourceSubscription deps props =
     [ \<lparr> sub_resource = identifier' deps props,
         sub_types = [''*''],
         sub_params = subscriptionParams deps props,
         sub_channel = ''resources/'' @ template (resourceName deps props),
         sub_enabled = isEnabled props,
         sub_liveMode = liveMode props,
         sub_onLiveEvent = onLiveEvent props \<rparr> ]"

text \<open>
  The object handed to \<^verbatim>\<open>queryKey.list\<close>. A spread of \<^verbatim>\<open>false\<close> or \<^verbatim>\<open>undefined\<close>
  adds nothing; an array, also an empty one, is truthy.
\<close>

definition listKeyConfig :: "('r, 'f, 's, 'a) Deps \<Rightarrow> ('r, 'f, 's, 'a) UseListProps \<Rightarrow> ('f, 's) ListKeyConfig" where
  "listKeyConfig deps props =
     \<lparr> k_filters = prefferedFilters props,
       k_hasPagination = isServerPagination deps props,
       k_pagination =
         (if isServerPagination deps props then Some (prefferedPagination deps props) else None),
       k_sorters = sorters props,
       k_sort = Option.bind (config props) c_sort \<rparr>"

definition queryKey' :: "('r, 'f, 's, 'a) Deps \<Rightarrow> ('r, 'f, 's, 'a) UseListProps \<Rightarrow> 'a list" where
  "queryKey' deps props = queryKey_list deps props (listKeyConfig deps props)"

text \<open>The argument the query function builds for \<^verbatim>\<open>getList\<close>, and the query function.\<close>

definition getListParams :: "('r, 'f, 's, 'a) Deps \<Rightarrow> ('r, 'f, 's, 'a) UseListProps \<Rightarrow> 'a QueryContext \<Rightarrow> ('f, 's, 'a) GetListParams" where
  "getListParams deps props ctx =
     \<lparr> gl_resource = (case resourceName deps props of None \<Rightarrow> [] | Some n \<Rightarrow> n),
       gl_pagination = prefferedPagination deps props,
       gl_hasPagination = isServerPagination deps props,
       gl_filters = prefferedFilters props,
       gl_sort = prefferedSorters props,
       gl_sorters = prefferedSorters props,
       gl_meta = (combinedMeta deps props)
         (''queryContext'' \<mapsto> MetaQueryContext
            \<lparr> queryKey = queryKey ctx, pageParam = pageParam ctx, signal = signal ctx \<rparr>),
       gl_metaData = (combinedMeta deps props)
         (''queryContext'' \<mapsto> MetaQueryContext
            \<lparr> queryKey = queryKey ctx, pageParam = pageParam ctx, signal = signal ctx \<rparr>) \<rparr>"

definition queryFn :: "('r, 'f, 's, 'a) Deps \<Rightarrow> ('r, 'f, 's, 'a) UseListProps \<Rightarrow> 'a QueryContext \<Rightarrow> HttpError + ('r, 'a) GetListResponse" where
  "queryFn deps props ctx = getList deps props (getListParams deps props ctx)"

text \<open>
  \<^verbatim>\<open>typeof queryOptions?.enabled !== "undefined" ? queryOptions?.enabled : !!resource?.name\<close>:
  a string is truthy when it is not empty.
\<close>

definition enabled :: "('r, 'f, 's, 'a) Deps \<Rightarrow> ('r, 'f, 's, 'a) UseListProps \<Rightarrow> bool" where
  "enabled deps props =
     (case queryOptions_enabled props of
        Some b \<Rightarrow> b
      | None \<Rightarrow> (case resourceName deps props of None \<Rightarrow> False | Some n \<Rightarrow> n \<noteq> []))"

text \<open>
  The \<^verbatim>\<open>select\<close> option the hook sets. \<open>select_data\<close> is its local variable
  \<^verbatim>\<open>data\<close> after the \<^verbatim>\<open>if\<close>: the raw response, sliced to the current page under
  client-side pagination. The caller's own \<^verbatim>\<open>queryOptions.select\<close>, when there is one,
  is applied to it, and its result is returned.
\<close>

definition select_data :: "('r, 'f, 's, 'a) Deps \<Rightarrow> ('r, 'f, 's, 'a) UseListProps \<Rightarrow> ('r, 'a) GetListResponse \<Rightarrow> ('r, 'a) GetListResponse" where
  "select_data deps props rawData =
     (let p = prefferedPagination deps props
      in if mode p = client
         then rawData\<lparr> data := slice (data rawData)
                               ((current p - 1) * pageSize p) (current p * pageSize p),
                       total := total rawData \<rparr>
         else rawData)"

definition select :: "('r, 'f, 's, 'a) Deps \<Rightarrow> ('r, 'f, 's, 'a) UseListProps \<Rightarrow> ('r, 'a) GetListResponse \<Rightarrow> ('r, 'a) GetListResponse" where
  "select deps props rawData =
     (case queryOptions_select props of
        Some f \<Rightarrow> f (select_data deps props rawData)
      | None \<Rightarrow> select_data deps props rawData)"

text \<open>Whether an effect is a call to the data provider.\<close>

fun isGetList :: "('r, 'f, 's, 'a) Effect \<Rightarrow> bool" where
  "isGetList (GetList provider params) = True"
| "isGetList (CheckError err) = False"
| "isGetList (QueryOptionsOnError err) = False"
| "isGetList (QueryOptionsOnSuccess d) = False"
| "isGetList (HandleNotification cfg fallback) = False"

text \<open>\<^verbatim>\<open>queryOptions?.onSuccess?.(data)\<close> and \<^verbatim>\<open>queryOptions?.onError?.(err)\<close>\<close>

definition queryOptions_onSuccess :: "('r, 'f, 's, 'a) UseListProps \<Rightarrow> ('r, 'a) GetListResponse \<Rightarrow> ('r, 'f, 's, 'a) Effect list" where
  "queryOptions_onSuccess props d =
     (case queryOptions props of
        None \<Rightarrow> []
      | Some q \<Rightarrow> if q_onSuccess q then [QueryOptionsOnSuccess d] else [])"

definition queryOptions_onError :: "('r, 'f, 's, 'a) UseListProps \<Rightarrow> HttpError \<Rightarrow> ('r, 'f, 's, 'a) Effect list" where
  "queryOptions_onError props err =
     (case queryOptions props of
        None \<Rightarrow> []
      | Some q \<Rightarrow> if q_onError q then [QueryOptionsOnError err] else [])"

definition onSuccess :: "('r, 'f, 's, 'a) Deps \<Rightarrow> ('r, 'f, 's, 'a) UseListProps \<Rightarrow> ('r, 'a) GetListResponse \<Rightarrow> ('r, 'f, 's, 'a) Effect list" where
  "onSuccess deps props d =
     queryOptions_onSuccess props d
     @ [HandleNotification
          (case successNotification props of
             NotificationFunction f \<Rightarrow> f d (notificationValues deps props) (identifier' deps props)
           | NotificationStatic c \<Rightarrow> c)
          None]"

definition onError :: "('r, 'f, 's, 'a) Deps \<Rightarrow> ('r, 'f, 's, 'a) UseListProps \<Rightarrow> HttpError \<Rightarrow> ('r, 'f, 's, 'a) Effect list" where
  "onError deps props err =
     [CheckError err]
     @ queryOptions_onError props err
     @ [HandleNotification
          (case errorNotification props of
             NotificationFunction f \<Rightarrow> f err (notificationValues deps props) (identifier' deps props)
           | NotificationStatic c \<Rightarrow> c)
          (Some \<lparr> n_key = Some (template (identifier' deps props) @ ''-useList-notification''),
                  n_message =
                    translate deps ''notifications.error'' (statusCode err)
                      (''Error (status code: '' @ numberToString (statusCode err) @ '')''),
                  n_description = Some (message err),
                  n_type = ''error'' \<rparr>)]"

definition useQueryArgs :: "('r, 'f, 's, 'a) Deps \<Rightarrow> ('r, 'f, 's, 'a) UseListProps \<Rightarrow> ('r, 'f, 's, 'a) UseQueryArgs" where
  "useQueryArgs deps props =
     \<lparr> uq_queryKey = queryKey' deps props,
       uq_queryFn = queryFn deps props,
       uq_queryOptions = queryOptions props,
       uq_enabled = enabled deps props,
       uq_select = select deps props,
       uq_onSuccess = onSuccess deps props,
       uq_onError = onError deps props \<rparr>"

definition queryResponse :: "('r, 'f, 's, 'a) Deps \<Rightarrow> ('r, 'f, 's, 'a) UseListProps \<Rightarrow> ('r, 'a) QueryObserverResult" where
  "queryResponse deps props = useQuery deps (useQueryArgs deps props)"

definition elapsedTime' :: "('r, 'f, 's, 'a) Deps \<Rightarrow> ('r, 'f, 's, 'a) UseListProps \<Rightarrow> int option" where
  "elapsedTime' deps props =
     useLoadingOvertime deps
       \<lparr> lo_isLoading = isFetching (queryResponse deps props),
         lo_interval = Option.bind (overtimeOptions props) o_interval,
         lo_onInterval = Option.bind (overtimeOptions props) o_onInterval \<rparr>"

text \<open>\<^verbatim>\<open>return { ...queryResponse, overtime: { elapsedTime } }\<close>\<close>

definition useList :: "('r, 'f, 's, 'a) Deps \<Rightarrow> ('r, 'f, 's, 'a) UseListProps \<Rightarrow> ('r, 'a) UseListReturn" where
  "useList deps props =
     QueryObserverResult.extend (queryResponse deps props)
       (UseListReturn.fields \<lparr> elapsedTime = elapsedTime' deps props \<rparr>)"

subsection \<open>A sample setting\<close>

text \<open>
  One concrete set of collaborators and a few concrete arguments, on which the hook is
  run below. Records are numbers, filters and sorters are strings, and untyped values
  are integers. The sample resource hook resolves any given name to a resource of that
  name; the sample pagination helper takes the page and the page size from
  \<^verbatim>\<open>pagination\<close>, then from \<^verbatim>\<open>config.pagination\<close>, then 1 and 10, and the mode the
  caller wrote or else the one the flag asks for; the sample key lists the pagination,
  when the key configuration has one, and the flag.
\<close>

definition sampleHandlePaginationParams :: "HandlePaginationParamsProps \<Rightarrow> RequiredPagination" where
  "sampleHandlePaginationParams a =
     \<lparr> current =
         (case pickNotDeprecated (Option.bind (hp_pagination a) p_current)
                 (Option.bind (hp_configPagination a) p_current) of
            Some c \<Rightarrow> c | None \<Rightarrow> 1),
       pageSize =
         (case pickNotDeprecated (Option.bind (hp_pagination a) p_pageSize)
                 (Option.bind (hp_configPagination a) p_pageSize) of
            Some n \<Rightarrow> n | None \<Rightarrow> 10),
       mode = (case Option.bind (hp_pagination a) p_mode of
                 Some m \<Rightarrow> m
               | None \<Rightarrow> if hp_hasPagination a = Some False then client else server) \<rparr>"

definition sampleDeps :: "(nat, string, string, int) Deps" where
  "sampleDeps =
     \<lparr> useResource = (\<lambda>r. \<lparr> r_resources = [\<lparr> name = ''posts'' \<rparr>],
                              r_resource = map_option (\<lambda>n. \<lparr> name = n \<rparr>) r,
                              r_identifier = r \<rparr>),
       dataProvider = (\<lambda>provider params. Inr \<lparr> data = [1, 2, 3, 4, 5], total = 5, others = Map.empty \<rparr>),
       translate = (\<lambda>key code fallback. fallback),
       getMeta = (\<lambda>r m. case m of None \<Rightarrow> Map.empty | Some x \<Rightarrow> x),
       pickDataProvider = (\<lambda>i n rs. case n of None \<Rightarrow> ''default'' | Some x \<Rightarrow> x),
       handlePaginationParams = sampleHandlePaginationParams,
       queryKeys = (\<lambda>i provider m c.
          (case k_pagination c of None \<Rightarrow> [] | Some p \<Rightarrow> [current p, pageSize p])
          @ [if k_hasPagination c then 1 else 0]),
       useLoadingOvertime = (\<lambda>p. if lo_isLoading p then Some 0 else None),
       useQuery = (\<lambda>args. \<lparr> qr_data = None, isFetching = uq_enabled args, qr_rest = Map.empty \<rparr>) \<rparr>"

text \<open>
  The same collaborators with a query library whose query has settled: the data of its
  result is what the \<^verbatim>\<open>select\<close> option makes of the query function's response, and is
  undefined when the query is disabled or has failed.
\<close>

definition settledDeps :: "(nat, string, string, int) Deps" where
  "settledDeps =
     sampleDeps\<lparr> useQuery := (\<lambda>args.
       \<lparr> qr_data =
           (if uq_enabled args
            then (case uq_queryFn args
                         \<lparr> queryKey = uq_queryKey args, pageParam = None, signal = None \<rparr> of
                    Inl err \<Rightarrow> None
                  | Inr raw \<Rightarrow> Some (uq_select args raw))
            else None),
         isFetching = False, qr_rest = Map.empty \<rparr>) \<rparr>"

text \<open>No option set: the resource \<^verbatim>\<open>posts\<close>, nothing else.\<close>

definition sampleProps :: "(nat, string, string, int) UseListProps" where
  "sampleProps =
     \<lparr> resourceFromProp = Some ''posts'',
       config = None,
       filters = None,
       hasPagination = None,
       pagination = None,
       sorters = None,
       queryOptions = None,
       successNotification = NotificationStatic NotificationUndefined,
       errorNotification = NotificationStatic NotificationUndefined,
       meta = None,
       metaData = None,
       liveMode = None,
       onLiveEvent = None,
       liveParams = None,
       dataProviderName = None,
       overtimeOptions = None \<rparr>"

text \<open>Client-side pagination, page 2 of pages of 2.\<close>

definition clientProps :: "(nat, string, string, int) UseListProps" where
  "clientProps =
     sampleProps\<lparr> pagination := Some \<lparr> p_current = Some 2, p_pageSize = Some 2, p_mode = Some client \<rparr> \<rparr>"

text \<open>The same, with a \<^verbatim>\<open>queryOptions.select\<close> of the caller that empties the page.\<close>

definition emptyingProps :: "(nat, string, string, int) UseListProps" where
  "emptyingProps =
     clientProps\<lparr> queryOptions := Some \<lparr> q_enabled = None,
                                          q_select = Some (\<lambda>d. d\<lparr> data := [] \<rparr>),
                                          q_onSuccess = False,
                                          q_onError = False \<rparr> \<rparr>"

text \<open>The same, with a \<^verbatim>\<open>queryOptions.select\<close> that reports the length of the page as the total.\<close>

definition recountingProps :: "(nat, string, string, int) UseListProps" where
  "recountingProps =
     clientProps\<lparr> queryOptions := Some \<lparr> q_enabled = None,
                                          q_select = Some (\<lambda>d. d\<lparr> total := int (length (data d)) \<rparr>),
                                          q_onSuccess = False,
                                          q_onError = False \<rparr> \<rparr>"

text \<open>Current and deprecated options both set, to different values.\<close>

definition bothProps :: "(nat, string, string, int) UseListProps" where
  "bothProps =
     sampleProps\<lparr> config := Some \<lparr> c_pagination = None, c_hasPagination = Some True,
                                    c_sort = Some ''old sort'', c_filters = Some ''old filters'' \<rparr>,
                  filters := Some ''new filters'',
                  hasPagination := Some False,
                  sorters := Some ''new sorters'',
                  meta := Some [''new'' \<mapsto> MetaAny 1],
                  metaData := Some [''old'' \<mapsto> MetaAny 0] \<rparr>"

text \<open>Only the deprecated options set.\<close>

definition deprecatedProps :: "(nat, string, string, int) UseListProps" where
  "deprecatedProps =
     sampleProps\<lparr> config := Some \<lparr> c_pagination = None, c_hasPagination = Some True,
                                    c_sort = Some ''old sort'', c_filters = Some ''old filters'' \<rparr>,
                  metaData := Some [''old'' \<mapsto> MetaAny 0] \<rparr>"

text \<open>Client-side pagination, page 2 of pages of 2, asked for through \<^verbatim>\<open>config\<close> alone.\<close>

definition configProps :: "(nat, string, string, int) UseListProps" where
  "configProps =
     sampleProps\<lparr> config :=
       Some \<lparr> c_pagination = Some \<lparr> p_current = Some 2, p_pageSize = Some 2, p_mode = None \<rparr>,
              c_hasPagination = Some False, c_sort = None, c_filters = None \<rparr> \<rparr>"

text \<open>A caller that supplies \<^verbatim>\<open>queryOptions.onError\<close> and switches the query off.\<close>

definition callbackProps :: "(nat, string, string, int) UseListProps" where
  "callbackProps =
     sampleProps\<lparr> queryOptions := Some \<lparr> q_enabled = Some False, q_select = None,
                                          q_onSuccess = False, q_onError = True \<rparr> \<rparr>"

text \<open>No resource name at all.\<close>

definition unnamedProps :: "(nat, string, string, int) UseListProps" where
  "unnamedProps = sampleProps\<lparr> resourceFromProp := None \<rparr>"

text \<open>Live parameters that replace the hook's \<^verbatim>\<open>filters\<close>.\<close>

definition liveProps :: "(nat, string, string, int) UseListProps" where
  "liveProps = sampleProps\<lparr> liveParams := Some [''filters'' \<mapsto> ParamAny 7] \<rparr>"

definition sampleResponse :: "(nat, int) GetListResponse" where
  "sampleResponse = \<lparr> data = [1, 2, 3, 4, 5], total = 5, others = [''cursor'' \<mapsto> 9] \<rparr>"

definition notFound :: HttpError where
  "notFound = \<lparr> message = ''Not Found'', statusCode = 404 \<rparr>"


subsection \<open>Facts about the primitives and the sample setting\<close>

lemma slice_nonneg:
  assumes "0 \<le> a" and "a \<le> b"
  shows "slice xs a b = take (nat (b - a)) (drop (nat a) xs)"
proof (cases "a \<le> int (length xs)")
  case False
  then have "drop (nat a) xs = []" and "drop (length xs) xs = []" by simp_all
  with False assms show ?thesis
    by (simp add: slice_def Let_def min_def)
next
  case True
  note a_le = this
  show ?thesis
  proof (cases "b \<le> int (length xs)")
    case True
    with a_le assms show ?thesis
      by (simp add: slice_def Let_def min_def)
  next
    case False
    then have "length (drop (nat a) xs) \<le> nat (b - a)"
      and "length (drop (nat a) xs) \<le> nat (int (length xs) - a)"
      using assms a_le by simp_all
    then have "take (nat (b - a)) (drop (nat a) xs) = drop (nat a) xs"
      and "take (nat (int (length xs) - a)) (drop (nat a) xs) = drop (nat a) xs"
      by simp_all
    with False a_le assms show ?thesis
      by (simp add: slice_def Let_def min_def)
  qed
qed

text \<open>On an ordinary page (page number at least one) the slice is the page.\<close>

lemma slice_page:
  assumes "1 \<le> c" and "0 \<le> n"
  shows "slice xs ((c - 1) * n) (c * n) = take (nat n) (drop (nat ((c - 1) * n)) xs)"
proof -
  have le: "(c - 1) * n \<le> c * n" using assms by (simp add: mult_right_mono)
  have nn: "0 \<le> (c - 1) * n" using assms by simp
  have d: "c * n - (c - 1) * n = n" by (simp add: algebra_simps)
  show ?thesis using slice_nonneg [OF nn le, of xs] d by simp
qed

text \<open>The status code 404 prints as its digits; \<open>10 ^ 21\<close> prints in exponent form.\<close>

lemma digits_404: "digits 404 = ''404''"
  by (simp add: digits.simps digit_def)

lemma toNumber_404: "toNumber 404 = 404"
  by (simp add: toNumber_def bitLength.simps)

lemma candidates_404:
  "candidates 404 (Suc 0) = []"
  "candidates 404 (Suc (Suc 0)) = []"
  "candidates 404 (Suc (Suc (Suc 0))) = [(404, 3)]"
  by (simp_all add: candidates_def digits_404 toNumber_def bitLength.simps)

lemma shortest_404: "shortest 404 = (3, 404, 3)"
  by (simp add: shortest_def digits_404 candidates_404 upt_rec)

lemma numberToString_404: "numberToString 404 = ''404''"
  by (simp add: numberToString_def numberString_def shortest_404 toNumber_404 digits_404)

lemma digits_sextillion: "digits 1000000000000000000000 = ''1000000000000000000000''"
  by (simp add: digits.simps digit_def)

lemma toNumber_sextillion: "toNumber 1000000000000000000000 = 1000000000000000000000"
  by (simp add: toNumber_def bitLength.simps)

lemma candidates_sextillion: "candidates 1000000000000000000000 (Suc 0) = [(1, 22)]"
  by (simp add: candidates_def digits_sextillion toNumber_def bitLength.simps)

lemma shortest_sextillion: "shortest 1000000000000000000000 = (1, 1, 22)"
  by (simp add: shortest_def digits_sextillion candidates_sextillion upt_rec)

lemma numberToString_sextillion: "numberToString 1000000000000000000000 = ''1e+21''"
  by (simp add: numberToString_def numberString_def shortest_sextillion toNumber_sextillion
      digits.simps digit_def)

lemmas sample_defs =
  sampleDeps_def sampleProps_def clientProps_def emptyingProps_def recountingProps_def
  bothProps_def deprecatedProps_def configProps_def callbackProps_def unnamedProps_def
  liveProps_def
  sampleResponse_def notFound_def sampleHandlePaginationParams_def

lemmas option_defs =
  pickNotDeprecated_def preferredMeta_def prefferedFilters_def prefferedSorters_def
  prefferedHasPagination_def queryOptions_enabled_def queryOptions_select_def

lemma prefferedPagination_sampleProps:
  "prefferedPagination sampleDeps sampleProps = \<lparr> current = 1, pageSize = 10, mode = server \<rparr>"
  by (simp add: prefferedPagination_def sample_defs option_defs)

lemma prefferedPagination_clientProps:
  "prefferedPagination sampleDeps clientProps = \<lparr> current = 2, pageSize = 2, mode = client \<rparr>"
  by (simp add: prefferedPagination_def sample_defs option_defs)

lemma prefferedPagination_emptyingProps:
  "prefferedPagination sampleDeps emptyingProps = \<lparr> current = 2, pageSize = 2, mode = client \<rparr>"
  by (simp add: prefferedPagination_def sample_defs option_defs)

lemma prefferedPagination_recountingProps:
  "prefferedPagination sampleDeps recountingProps = \<lparr> current = 2, pageSize = 2, mode = client \<rparr>"
  by (simp add: prefferedPagination_def sample_defs option_defs)

subsection \<open>Claims\<close>

text \<open>
  Claim C1 as stated does not hold for every input: with a \<^verbatim>\<open>queryOptions.select\<close> of
  the caller that empties the page, under client-side pagination, the data the step
  returns is not the slice of the raw data.
\<close>

theorem select_ignores_slice_under_caller_select:
  "mode (prefferedPagination sampleDeps emptyingProps) = client \<and>
   data (select sampleDeps emptyingProps sampleResponse) \<noteq>
     slice (data sampleResponse)
       ((current (prefferedPagination sampleDeps emptyingProps) - 1)
          * pageSize (prefferedPagination sampleDeps emptyingProps))
       (current (prefferedPagination sampleDeps emptyingProps)
          * pageSize (prefferedPagination sampleDeps emptyingProps))"
proof -
  have "data (select sampleDeps emptyingProps sampleResponse) = []"
    by (simp add: select_def queryOptions_select_def emptyingProps_def)
  moreover have "slice (data sampleResponse) ((2 - 1) * 2) (2 * 2) = [3, 4]"
    by (simp add: sampleResponse_def slice_def)
  ultimately show ?thesis
    by (simp add: prefferedPagination_emptyingProps)
qed

text \<open>
  Claim C1, as amended. Under client-side pagination the response that the hook's
  \<^verbatim>\<open>select\<close> step builds has as its data
  \<^verbatim>\<open>rawData.data.slice((current - 1) * pageSize, current * pageSize)\<close>, for the resolved
  page and page size; under server-side pagination its data is the raw data, unsliced.
  That response is what the step returns when the caller supplies no
  \<^verbatim>\<open>queryOptions.select\<close>; when the caller supplies one, the step returns the caller's
  function applied to that response.
\<close>

theorem select_pages_client_side:
  "(mode (prefferedPagination deps props) = client \<longrightarrow>
      data (select_data deps props rawData) =
        slice (data rawData)
          ((current (prefferedPagination deps props) - 1) * pageSize (prefferedPagination deps props))
          (current (prefferedPagination deps props) * pageSize (prefferedPagination deps props)))
   \<and> (mode (prefferedPagination deps props) = server \<longrightarrow>
      data (select_data deps props rawData) = data rawData)
   \<and> (queryOptions_select props = None \<longrightarrow>
      select deps props rawData = select_data deps props rawData)
   \<and> (\<forall>f. queryOptions_select props = Some f \<longrightarrow>
      select deps props rawData = f (select_data deps props rawData))"
  by (simp add: select_def select_data_def Let_def)

text \<open>
  The sample response of five records, on page 2 of pages of 2, yields the records 3
  and 4; under server-side pagination all five come back; and a caller's
  \<^verbatim>\<open>queryOptions.select\<close> receives the sliced response.
\<close>

theorem select_pages_client_side_witness:
  "mode (prefferedPagination sampleDeps clientProps) = client
   \<and> queryOptions_select clientProps = None
   \<and> data (select sampleDeps clientProps sampleResponse) = [3, 4]
   \<and> mode (prefferedPagination sampleDeps sampleProps) = server
   \<and> queryOptions_select sampleProps = None
   \<and> data (select sampleDeps sampleProps sampleResponse) = [1, 2, 3, 4, 5]
   \<and> queryOptions_select emptyingProps = Some (\<lambda>d. d\<lparr> data := [] \<rparr>)
   \<and> select sampleDeps emptyingProps sampleResponse
       = (select_data sampleDeps emptyingProps sampleResponse)\<lparr> data := [] \<rparr>"
proof -
  have c: "mode (prefferedPagination sampleDeps clientProps) = client"
    by (simp add: prefferedPagination_clientProps)
  have s: "mode (prefferedPagination sampleDeps sampleProps) = server"
    by (simp add: prefferedPagination_sampleProps)
  have nc: "queryOptions_select clientProps = None"
    by (simp add: queryOptions_select_def clientProps_def sampleProps_def)
  have ns: "queryOptions_select sampleProps = None"
    by (simp add: queryOptions_select_def sampleProps_def)
  have e: "queryOptions_select emptyingProps = Some (\<lambda>d. d\<lparr> data := [] \<rparr>)"
    by (simp add: queryOptions_select_def emptyingProps_def)
  have "data (select sampleDeps clientProps sampleResponse) = [3, 4]"
    using select_pages_client_side [of sampleDeps clientProps sampleResponse] c nc
    by (simp add: prefferedPagination_clientProps sampleResponse_def slice_def)
  moreover have "data (select sampleDeps sampleProps sampleResponse) = [1, 2, 3, 4, 5]"
    using select_pages_client_side [of sampleDeps sampleProps sampleResponse] s ns
    by (simp add: sampleResponse_def)
  moreover have "select sampleDeps emptyingProps sampleResponse
       = (select_data sampleDeps emptyingProps sampleResponse)\<lparr> data := [] \<rparr>"
    using select_pages_client_side [of sampleDeps emptyingProps sampleResponse] e
    by simp
  ultimately show ?thesis using c s nc ns e by simp
qed

text \<open>
  Claim C8. Under client-side pagination the \<^verbatim>\<open>select\<close> step changes only the data
  field of the raw response: the response it builds is the raw response with the data
  replaced by the slice, so that the total and every other field are those of the raw
  response, and the total is still the provider's count and not the length of the page.
  That response is what the step returns, or what it hands to the caller's
  \<^verbatim>\<open>queryOptions.select\<close> when there is one; and the step is the \<^verbatim>\<open>select\<close> option
  the hook gives to the query library.
\<close>

theorem select_changes_data_only:
  "mode (prefferedPagination deps props) = client \<longrightarrow>
     select_data deps props rawData =
         rawData\<lparr> data := slice (data rawData)
           ((current (prefferedPagination deps props) - 1) * pageSize (prefferedPagination deps props))
           (current (prefferedPagination deps props) * pageSize (prefferedPagination deps props)) \<rparr>
     \<and> total (select_data deps props rawData) = total rawData
     \<and> others (select_data deps props rawData) = others rawData
     \<and> (queryOptions_select props = None \<longrightarrow>
          select deps props rawData = select_data deps props rawData
          \<and> total (select deps props rawData) = total rawData
          \<and> others (select deps props rawData) = others rawData)
     \<and> (\<forall>f. queryOptions_select props = Some f \<longrightarrow>
          select deps props rawData = f (select_data deps props rawData))
     \<and> uq_select (useQueryArgs deps props) = select deps props"
  by (simp add: select_def select_data_def Let_def useQueryArgs_def)

text \<open>
  On the sample response the page has two records while the total stays five, and the
  extra field \<^verbatim>\<open>cursor\<close> is carried along; a \<^verbatim>\<open>queryOptions.select\<close> of the caller
  receives that response, total five.
\<close>

theorem select_changes_data_only_witness:
  "mode (prefferedPagination sampleDeps clientProps) = client
   \<and> queryOptions_select clientProps = None
   \<and> select sampleDeps clientProps sampleResponse
       = \<lparr> data = [3, 4], total = 5, others = [''cursor'' \<mapsto> 9] \<rparr>
   \<and> uq_select (useQueryArgs sampleDeps clientProps) sampleResponse
       = \<lparr> data = [3, 4], total = 5, others = [''cursor'' \<mapsto> 9] \<rparr>
   \<and> mode (prefferedPagination sampleDeps recountingProps) = client
   \<and> queryOptions_select recountingProps = Some (\<lambda>d. d\<lparr> total := int (length (data d)) \<rparr>)
   \<and> select_data sampleDeps recountingProps sampleResponse
       = \<lparr> data = [3, 4], total = 5, others = [''cursor'' \<mapsto> 9] \<rparr>
   \<and> select sampleDeps recountingProps sampleResponse
       = (select_data sampleDeps recountingProps sampleResponse)\<lparr> total := 2 \<rparr>"
proof -
  have c: "mode (prefferedPagination sampleDeps clientProps) = client"
    and r: "mode (prefferedPagination sampleDeps recountingProps) = client"
    by (simp_all add: prefferedPagination_clientProps prefferedPagination_recountingProps)
  have nc: "queryOptions_select clientProps = None"
    by (simp add: queryOptions_select_def clientProps_def sampleProps_def)
  have sr: "queryOptions_select recountingProps = Some (\<lambda>d. d\<lparr> total := int (length (data d)) \<rparr>)"
    by (simp add: queryOptions_select_def recountingProps_def)
  have page: "slice (data sampleResponse) ((2 - 1) * 2) (2 * 2) = [3, 4]"
    by (simp add: sampleResponse_def slice_def)
  note k = select_changes_data_only [of sampleDeps clientProps sampleResponse]
  note kr = select_changes_data_only [of sampleDeps recountingProps sampleResponse]
  from k c have dc: "select_data sampleDeps clientProps sampleResponse
      = \<lparr> data = [3, 4], total = 5, others = [''cursor'' \<mapsto> 9] \<rparr>"
    using page by (simp add: prefferedPagination_clientProps sampleResponse_def)
  from k c nc have sc: "select sampleDeps clientProps sampleResponse
      = select_data sampleDeps clientProps sampleResponse"
    by blast
  from k c have uc: "uq_select (useQueryArgs sampleDeps clientProps) = select sampleDeps clientProps"
    by blast
  from kr r have dr: "select_data sampleDeps recountingProps sampleResponse
      = \<lparr> data = [3, 4], total = 5, others = [''cursor'' \<mapsto> 9] \<rparr>"
    using page by (simp add: prefferedPagination_recountingProps sampleResponse_def)
  from kr r sr have "select sampleDeps recountingProps sampleResponse
      = (\<lambda>d. d\<lparr> total := int (length (data d)) \<rparr>) (select_data sampleDeps recountingProps sampleResponse)"
    by blast
  then have srr: "select sampleDeps recountingProps sampleResponse
      = (select_data sampleDeps recountingProps sampleResponse)\<lparr> total := 2 \<rparr>"
    by (simp add: dr)
  show ?thesis using c r nc sr dc sc uc dr srr by simp
qed

text \<open>
  Claim C2. For each of the pairs \<^verbatim>\<open>filters\<close> and \<^verbatim>\<open>config.filters\<close>, \<^verbatim>\<open>sorters\<close> and
  \<^verbatim>\<open>config.sort\<close>, \<^verbatim>\<open>meta\<close> and \<^verbatim>\<open>metaData\<close>, \<^verbatim>\<open>hasPagination\<close> and
  \<^verbatim>\<open>config.hasPagination\<close>, the hook resolves the pair to the current option whenever
  that is defined, and to the deprecated option only when the current one is undefined.
\<close>

theorem current_option_wins:
  "(\<forall>v. filters props = Some v \<longrightarrow> prefferedFilters props = Some v)
   \<and> (filters props = None \<longrightarrow> prefferedFilters props = Option.bind (config props) c_filters)
   \<and> (\<forall>v. sorters props = Some v \<longrightarrow> prefferedSorters props = Some v)
   \<and> (sorters props = None \<longrightarrow> prefferedSorters props = Option.bind (config props) c_sort)
   \<and> (\<forall>v. meta props = Some v \<longrightarrow> preferredMeta props = Some v)
   \<and> (meta props = None \<longrightarrow> preferredMeta props = metaData props)
   \<and> (\<forall>v. hasPagination props = Some v \<longrightarrow> prefferedHasPagination props = Some v)
   \<and> (hasPagination props = None \<longrightarrow>
        prefferedHasPagination props = Option.bind (config props) c_hasPagination)"
  by (simp add: option_defs)

text \<open>
  With both options of every pair set, to different values, the current ones are
  resolved; with only the deprecated ones set, those are.
\<close>

theorem current_option_wins_witness:
  "filters bothProps = Some ''new filters''
   \<and> Option.bind (config bothProps) c_filters = Some ''old filters''
   \<and> prefferedFilters bothProps = Some ''new filters''
   \<and> sorters bothProps = Some ''new sorters''
   \<and> Option.bind (config bothProps) c_sort = Some ''old sort''
   \<and> prefferedSorters bothProps = Some ''new sorters''
   \<and> meta bothProps = Some [''new'' \<mapsto> MetaAny 1]
   \<and> metaData bothProps = Some [''old'' \<mapsto> MetaAny 0]
   \<and> preferredMeta bothProps = Some [''new'' \<mapsto> MetaAny 1]
   \<and> hasPagination bothProps = Some False
   \<and> Option.bind (config bothProps) c_hasPagination = Some True
   \<and> prefferedHasPagination bothProps = Some False
   \<and> filters deprecatedProps = None
   \<and> prefferedFilters deprecatedProps = Some ''old filters''
   \<and> sorters deprecatedProps = None
   \<and> prefferedSorters deprecatedProps = Some ''old sort''
   \<and> meta deprecatedProps = None
   \<and> preferredMeta deprecatedProps = Some [''old'' \<mapsto> MetaAny 0]
   \<and> hasPagination deprecatedProps = None
   \<and> prefferedHasPagination deprecatedProps = Some True"
proof -
  have b: "filters bothProps = Some ''new filters''" "sorters bothProps = Some ''new sorters''"
    "meta bothProps = Some [''new'' \<mapsto> MetaAny 1]" "hasPagination bothProps = Some False"
    by (simp_all add: bothProps_def sampleProps_def)
  have bd: "Option.bind (config bothProps) c_filters = Some ''old filters''"
    "Option.bind (config bothProps) c_sort = Some ''old sort''"
    "metaData bothProps = Some [''old'' \<mapsto> MetaAny 0]"
    "Option.bind (config bothProps) c_hasPagination = Some True"
    by (simp_all add: bothProps_def sampleProps_def)
  have d: "filters deprecatedProps = None" "sorters deprecatedProps = None"
    "meta deprecatedProps = None" "hasPagination deprecatedProps = None"
    by (simp_all add: deprecatedProps_def sampleProps_def)
  have dd: "Option.bind (config deprecatedProps) c_filters = Some ''old filters''"
    "Option.bind (config deprecatedProps) c_sort = Some ''old sort''"
    "metaData deprecatedProps = Some [''old'' \<mapsto> MetaAny 0]"
    "Option.bind (config deprecatedProps) c_hasPagination = Some True"
    by (simp_all add: deprecatedProps_def sampleProps_def)
  have "prefferedFilters bothProps = Some ''new filters''"
    "prefferedSorters bothProps = Some ''new sorters''"
    "preferredMeta bothProps = Some [''new'' \<mapsto> MetaAny 1]"
    "prefferedHasPagination bothProps = Some False"
    using current_option_wins [of bothProps] b by blast+
  moreover have "prefferedFilters deprecatedProps = Some ''old filters''"
    "prefferedSorters deprecatedProps = Some ''old sort''"
    "preferredMeta deprecatedProps = Some [''old'' \<mapsto> MetaAny 0]"
    "prefferedHasPagination deprecatedProps = Some True"
    using current_option_wins [of deprecatedProps] d dd by metis+
  ultimately show ?thesis using b bd d by simp
qed

text \<open>
  Claim C4. The error callback the hook gives to the query library hands the error to
  the auth error-checking callback, then to the caller's \<^verbatim>\<open>queryOptions.onError\<close> when
  there is one, then calls the notification dispatcher with the caller's error
  notification setting and a fallback notification whose message is the translation of
  \<^verbatim>\<open>notifications.error\<close> with the default text \<^verbatim>\<open>Error (status code: <statusCode>)\<close>,
  whose description is the error's message and whose type is \<^verbatim>\<open>error\<close>. It does
  nothing else on that path: in particular it does not call the data provider again.
\<close>

theorem onError_forwards_and_notifies:
  "uq_onError (useQueryArgs deps props) = onError deps props
   \<and> onError deps props err
       = [CheckError err] @ queryOptions_onError props err
         @ [HandleNotification
              (case errorNotification props of
                 NotificationFunction f \<Rightarrow>
                   f err (notificationValues deps props) (identifier' deps props)
               | NotificationStatic c \<Rightarrow> c)
              (Some \<lparr> n_key = Some (template (identifier' deps props) @ ''-useList-notification''),
                      n_message =
                        translate deps ''notifications.error'' (statusCode err)
                          (''Error (status code: '' @ numberToString (statusCode err) @ '')''),
                      n_description = Some (message err),
                      n_type = ''error'' \<rparr>)]
   \<and> (\<forall>q. queryOptions props = Some q \<and> q_onError q \<longrightarrow>
        queryOptions_onError props err = [QueryOptionsOnError err])
   \<and> (\<forall>q. queryOptions props = None \<or> queryOptions props = Some q \<and> \<not> q_onError q \<longrightarrow>
        queryOptions_onError props err = [])
   \<and> [e \<leftarrow> onError deps props err. isGetList e] = []"
  by (auto simp: onError_def queryOptions_onError_def useQueryArgs_def split: option.splits)

text \<open>
  For a caller with an \<^verbatim>\<open>onError\<close> callback and the error 404 \<^verbatim>\<open>Not Found\<close>, with a
  translation that falls back to the default text: the three calls, and the message
  \<^verbatim>\<open>Error (status code: 404)\<close>; for a caller without the callback, the other two.
\<close>

theorem onError_forwards_and_notifies_witness:
  "queryOptions callbackProps
     = Some \<lparr> q_enabled = Some False, q_select = None, q_onSuccess = False, q_onError = True \<rparr>
   \<and> uq_onError (useQueryArgs sampleDeps callbackProps) notFound
     = [CheckError notFound,
        QueryOptionsOnError notFound,
        HandleNotification NotificationUndefined
          (Some \<lparr> n_key = Some ''posts-useList-notification'',
                  n_message = ''Error (status code: 404)'',
                  n_description = Some ''Not Found'',
                  n_type = ''error'' \<rparr>)]
   \<and> queryOptions sampleProps = None
   \<and> uq_onError (useQueryArgs sampleDeps sampleProps) notFound
     = [CheckError notFound,
        HandleNotification NotificationUndefined
          (Some \<lparr> n_key = Some ''posts-useList-notification'',
                  n_message = ''Error (status code: 404)'',
                  n_description = Some ''Not Found'',
                  n_type = ''error'' \<rparr>)]"
proof -
  have q: "queryOptions callbackProps
     = Some \<lparr> q_enabled = Some False, q_select = None, q_onSuccess = False, q_onError = True \<rparr>"
    by (simp add: callbackProps_def)
  note k = onError_forwards_and_notifies [of sampleDeps callbackProps notFound]
  have "q_onError \<lparr> q_enabled = Some False, q_select = None :: ((nat, int) GetListResponse \<Rightarrow> (nat, int) GetListResponse) option,
                     q_onSuccess = False, q_onError = True \<rparr>"
    by simp
  with k q have u: "queryOptions_onError callbackProps notFound = [QueryOptionsOnError notFound]"
    by blast
  from k have w: "uq_onError (useQueryArgs sampleDeps callbackProps) = onError sampleDeps callbackProps"
    by blast
  have e: "errorNotification callbackProps = NotificationStatic NotificationUndefined"
    by (simp add: callbackProps_def sampleProps_def)
  have i: "identifier' sampleDeps callbackProps = Some ''posts''"
    by (simp add: identifier'_def sampleDeps_def callbackProps_def sampleProps_def)
  have t: "translate sampleDeps key code fallback = fallback" for key code fallback
    by (simp add: sampleDeps_def)
  have sn: "statusCode notFound = 404" "message notFound = ''Not Found''"
    by (simp_all add: notFound_def)
  from k have "onError sampleDeps callbackProps notFound
       = [CheckError notFound] @ queryOptions_onError callbackProps notFound
         @ [HandleNotification
              (case errorNotification callbackProps of
                 NotificationFunction f \<Rightarrow>
                   f notFound (notificationValues sampleDeps callbackProps)
                     (identifier' sampleDeps callbackProps)
               | NotificationStatic c \<Rightarrow> c)
              (Some \<lparr> n_key = Some (template (identifier' sampleDeps callbackProps)
                                      @ ''-useList-notification''),
                      n_message =
                        translate sampleDeps ''notifications.error'' (statusCode notFound)
                          (''Error (status code: '' @ numberToString (statusCode notFound) @ '')''),
                      n_description = Some (message notFound),
                      n_type = ''error'' \<rparr>)]"
    by blast
  then have "onError sampleDeps callbackProps notFound
     = [CheckError notFound,
        QueryOptionsOnError notFound,
        HandleNotification NotificationUndefined
          (Some \<lparr> n_key = Some ''posts-useList-notification'',
                  n_message = ''Error (status code: 404)'',
                  n_description = Some ''Not Found'',
                  n_type = ''error'' \<rparr>)]"
    by (simp add: u e i t sn template_def numberToString_404)
  moreover have qs: "queryOptions sampleProps = None"
    by (simp add: sampleProps_def)
  moreover have "uq_onError (useQueryArgs sampleDeps sampleProps) notFound
     = [CheckError notFound,
        HandleNotification NotificationUndefined
          (Some \<lparr> n_key = Some ''posts-useList-notification'',
                  n_message = ''Error (status code: 404)'',
                  n_description = Some ''Not Found'',
                  n_type = ''error'' \<rparr>)]"
  proof -
    note ks = onError_forwards_and_notifies [of sampleDeps sampleProps notFound]
    from ks qs have us: "queryOptions_onError sampleProps notFound = []"
      by blast
    from ks have ws: "uq_onError (useQueryArgs sampleDeps sampleProps) = onError sampleDeps sampleProps"
      by blast
    have es: "errorNotification sampleProps = NotificationStatic NotificationUndefined"
      by (simp add: sampleProps_def)
    have ids: "identifier' sampleDeps sampleProps = Some ''posts''"
      by (simp add: identifier'_def sampleDeps_def sampleProps_def)
    from ks have "onError sampleDeps sampleProps notFound
       = [CheckError notFound] @ queryOptions_onError sampleProps notFound
         @ [HandleNotification
              (case errorNotification sampleProps of
                 NotificationFunction f \<Rightarrow>
                   f notFound (notificationValues sampleDeps sampleProps)
                     (identifier' sampleDeps sampleProps)
               | NotificationStatic c \<Rightarrow> c)
              (Some \<lparr> n_key = Some (template (identifier' sampleDeps sampleProps)
                                      @ ''-useList-notification''),
                      n_message =
                        translate sampleDeps ''notifications.error'' (statusCode notFound)
                          (''Error (status code: '' @ numberToString (statusCode notFound) @ '')''),
                      n_description = Some (message notFound),
                      n_type = ''error'' \<rparr>)]"
      by blast
    then show ?thesis
      by (simp add: ws us es ids t sn template_def numberToString_404)
  qed
  ultimately show ?thesis using w q by simp
qed

text \<open>
  Claim C5. The query function calls \<^verbatim>\<open>getList\<close> of the data provider picked for the
  resource, and its result is the query's result. The argument has as resource the name
  of the resolved resource, or the empty string when there is none, the resolved
  pagination, the merged filters, the merged sorters both as \<^verbatim>\<open>sort\<close> and as
  \<^verbatim>\<open>sorters\<close>, and as \<^verbatim>\<open>meta\<close> and as \<^verbatim>\<open>metaData\<close> the combined meta with the key
  \<^verbatim>\<open>queryContext\<close> set to the query key, the page parameter and the signal of the query
  context.
\<close>

theorem queryFn_calls_getList:
  "queryFn deps props ctx
     = dataProvider deps (pickedDataProvider deps props) (getListParams deps props ctx)
   \<and> uq_queryFn (useQueryArgs deps props) = queryFn deps props
   \<and> pickedDataProvider deps props
     = pickDataProvider deps (identifier' deps props) (dataProviderName props)
         (r_resources (useResource deps (resourceFromProp props)))
   \<and> gl_resource (getListParams deps props ctx)
     = (case resource deps props of None \<Rightarrow> [] | Some r \<Rightarrow> name r)
   \<and> gl_pagination (getListParams deps props ctx) = prefferedPagination deps props
   \<and> gl_filters (getListParams deps props ctx) = prefferedFilters props
   \<and> gl_sort (getListParams deps props ctx) = prefferedSorters props
   \<and> gl_sorters (getListParams deps props ctx) = prefferedSorters props
   \<and> gl_meta (getListParams deps props ctx)
     = (combinedMeta deps props)
         (''queryContext'' \<mapsto> MetaQueryContext
            \<lparr> queryKey = queryKey ctx, pageParam = pageParam ctx, signal = signal ctx \<rparr>)
   \<and> gl_metaData (getListParams deps props ctx) = gl_meta (getListParams deps props ctx)"
  by (simp add: queryFn_def getList_def useQueryArgs_def pickedDataProvider_def
      getListParams_def resourceName_def split: option.splits)

text \<open>
  Claim C6, as amended. The hook returns the query library's result, every field
  unchanged, with one field added: \<^verbatim>\<open>overtime\<close>, which is \<^verbatim>\<open>{ elapsedTime }\<close> with the
  elapsed time the loading-overtime helper reports for the query's \<^verbatim>\<open>isFetching\<close> and
  the caller's overtime options. The envelope \<^verbatim>\<open>{data, total}\<close> is not spread into the
  result: when the library has data the envelope is the value of the result's
  \<^verbatim>\<open>data\<close> field, and when it has none that field is undefined.
\<close>

theorem useList_returns_query_result_with_overtime:
  "useList deps props
     = \<lparr> qr_data = qr_data (queryResponse deps props),
         isFetching = isFetching (queryResponse deps props),
         qr_rest = qr_rest (queryResponse deps props),
         overtime =
           \<lparr> elapsedTime =
               useLoadingOvertime deps
                 \<lparr> lo_isLoading = isFetching (queryResponse deps props),
                   lo_interval = Option.bind (overtimeOptions props) o_interval,
                   lo_onInterval = Option.bind (overtimeOptions props) o_onInterval \<rparr> \<rparr> \<rparr>
   \<and> QueryObserverResult.truncate (useList deps props) = queryResponse deps props
   \<and> queryResponse deps props = useQuery deps (useQueryArgs deps props)
   \<and> uq_select (useQueryArgs deps props) = select deps props
   \<and> (\<forall>envelope. qr_data (useQuery deps (useQueryArgs deps props)) = Some envelope \<longrightarrow>
        qr_data (useList deps props) = Some envelope)
   \<and> (qr_data (useQuery deps (useQueryArgs deps props)) = None \<longrightarrow>
        qr_data (useList deps props) = None)"
  by (simp add: useList_def elapsedTime'_def queryResponse_def useQueryArgs_def
      QueryObserverResult.extend_def QueryObserverResult.truncate_def UseListReturn.fields_def)

text \<open>
  With the settled sample library, page 2 of the sample records is the envelope under
  the result's \<^verbatim>\<open>data\<close>; with the sample library that is still fetching, the result has
  no data.
\<close>

theorem useList_returns_query_result_with_overtime_witness:
  "qr_data (useQuery settledDeps (useQueryArgs settledDeps clientProps))
     = Some \<lparr> data = [3, 4], total = 5, others = Map.empty \<rparr>
   \<and> qr_data (useList settledDeps clientProps)
     = Some \<lparr> data = [3, 4], total = 5, others = Map.empty \<rparr>
   \<and> qr_data (useQuery sampleDeps (useQueryArgs sampleDeps sampleProps)) = None
   \<and> qr_data (useList sampleDeps sampleProps) = None"
proof -
  have p: "prefferedPagination settledDeps clientProps = \<lparr> current = 2, pageSize = 2, mode = client \<rparr>"
    by (simp add: prefferedPagination_def settledDeps_def sample_defs option_defs)
  have e: "enabled settledDeps clientProps"
    by (simp add: enabled_def resourceName_def resource_def queryOptions_enabled_def
        settledDeps_def sampleDeps_def clientProps_def sampleProps_def)
  have f: "queryFn settledDeps clientProps ctx
      = Inr \<lparr> data = [1, 2, 3, 4, 5], total = 5, others = Map.empty \<rparr>" for ctx
    by (simp add: queryFn_def getList_def settledDeps_def sampleDeps_def)
  have nc: "queryOptions_select clientProps = None"
    by (simp add: queryOptions_select_def clientProps_def sampleProps_def)
  have "select_data settledDeps clientProps raw = raw\<lparr> data := slice (data raw) 2 4 \<rparr>" for raw
    by (simp add: select_data_def p)
  then have s: "select settledDeps clientProps raw = raw\<lparr> data := slice (data raw) 2 4 \<rparr>" for raw
    by (simp add: select_def nc)
  have u: "useQuery settledDeps args
      = \<lparr> qr_data =
            (if uq_enabled args
             then (case uq_queryFn args
                          \<lparr> queryKey = uq_queryKey args, pageParam = None, signal = None \<rparr> of
                     Inl err \<Rightarrow> None
                   | Inr raw \<Rightarrow> Some (uq_select args raw))
             else None),
          isFetching = False, qr_rest = Map.empty \<rparr>" for args
    by (simp add: settledDeps_def)
  have a: "qr_data (useQuery settledDeps (useQueryArgs settledDeps clientProps))
      = Some \<lparr> data = [3, 4], total = 5, others = Map.empty \<rparr>"
    by (simp add: u useQueryArgs_def e f s slice_def)
  have n: "qr_data (useQuery sampleDeps (useQueryArgs sampleDeps sampleProps)) = None"
    by (simp add: sampleDeps_def)
  from a have "qr_data (useList settledDeps clientProps)
      = Some \<lparr> data = [3, 4], total = 5, others = Map.empty \<rparr>"
    using useList_returns_query_result_with_overtime [of settledDeps clientProps] by blast
  moreover from n have "qr_data (useList sampleDeps sampleProps) = None"
    using useList_returns_query_result_with_overtime [of sampleDeps sampleProps] by blast
  ultimately show ?thesis using a n by simp
qed

text \<open>
  Claim C6 as stated does not hold for every invocation: while the sample query is still
  fetching, the object the hook returns has no data, so it exposes neither an array of
  records nor a total.
\<close>

theorem useList_result_without_envelope:
  "qr_data (useList sampleDeps sampleProps) = None
   \<and> isFetching (useList sampleDeps sampleProps)
   \<and> overtime (useList sampleDeps sampleProps) = \<lparr> elapsedTime = Some 0 \<rparr>"
proof -
  have e: "enabled sampleDeps sampleProps"
    by (simp add: enabled_def resourceName_def resource_def queryOptions_enabled_def
        sampleDeps_def sampleProps_def)
  have q: "queryResponse sampleDeps sampleProps
      = \<lparr> qr_data = None, isFetching = True, qr_rest = Map.empty \<rparr>"
    using e by (simp add: queryResponse_def useQueryArgs_def sampleDeps_def)
  have l: "useLoadingOvertime sampleDeps a = (if lo_isLoading a then Some 0 else None)" for a
    by (simp add: sampleDeps_def)
  show ?thesis
    by (simp add: useList_def elapsedTime'_def q l QueryObserverResult.extend_def
        UseListReturn.fields_def)
qed

text \<open>
  Claim C7, as amended. The hook calls \<^verbatim>\<open>useResourceSubscription\<close> exactly once, for
  the resolved identifier. The channel is \<^verbatim>\<open>resources/\<close> followed by the name of the
  resolved resource, the event types are \<^verbatim>\<open>["*"]\<close>, the live mode and the live-event
  handler are the caller's, and the parameters are the hook's eight
  (\<^verbatim>\<open>meta\<close>, \<^verbatim>\<open>metaData\<close>, \<^verbatim>\<open>pagination\<close>, \<^verbatim>\<open>hasPagination\<close>, \<^verbatim>\<open>sort\<close>,
  \<^verbatim>\<open>sorters\<close>, \<^verbatim>\<open>filters\<close>, \<^verbatim>\<open>subscriptionType\<close>) overridden by \<^verbatim>\<open>liveParams\<close>: the
  resolved pagination, the merged sorters, the merged filters and the combined meta are
  there, each under its key unless \<^verbatim>\<open>liveParams\<close> has that key. The call is enabled
  exactly when \<^verbatim>\<open>queryOptions.enabled\<close> is undefined or true; when it is false the one
  call is made disabled, and no subscription is registered through it.
\<close>

theorem subscription_registered_once:
  "\<exists>sub. useResourceSubscription deps props = [sub]
     \<and> sub_resource sub = identifier' deps props
     \<and> sub_types sub = [''*'']
     \<and> sub_channel sub = ''resources/'' @ template (map_option name (resource deps props))
     \<and> (\<forall>r. resource deps props = Some r \<longrightarrow> sub_channel sub = ''resources/'' @ name r)
     \<and> sub_enabled sub
         = (queryOptions_enabled props = None \<or> queryOptions_enabled props = Some True)
     \<and> sub_liveMode sub = liveMode props
     \<and> sub_onLiveEvent sub = onLiveEvent props
     \<and> sub_params sub
         = [ ''meta'' \<mapsto> ParamMeta (combinedMeta deps props),
             ''metaData'' \<mapsto> ParamMeta (combinedMeta deps props),
             ''pagination'' \<mapsto> ParamPagination (prefferedPagination deps props),
             ''hasPagination'' \<mapsto> ParamBool (isServerPagination deps props),
             ''sort'' \<mapsto> ParamSorters (prefferedSorters props),
             ''sorters'' \<mapsto> ParamSorters (prefferedSorters props),
             ''filters'' \<mapsto> ParamFilters (prefferedFilters props),
             ''subscriptionType'' \<mapsto> ParamString ''useList'' ]
           ++ (case liveParams props of None \<Rightarrow> Map.empty | Some lp \<Rightarrow> lp)
     \<and> (\<forall>lp k v. liveParams props = Some lp \<and> lp k = Some v \<longrightarrow> sub_params sub k = Some v)
     \<and> ((\<forall>lp. liveParams props = Some lp \<longrightarrow> lp ''pagination'' = None) \<longrightarrow>
          sub_params sub ''pagination'' = Some (ParamPagination (prefferedPagination deps props)))
     \<and> ((\<forall>lp. liveParams props = Some lp \<longrightarrow> lp ''sorters'' = None) \<longrightarrow>
          sub_params sub ''sorters'' = Some (ParamSorters (prefferedSorters props)))
     \<and> ((\<forall>lp. liveParams props = Some lp \<longrightarrow> lp ''filters'' = None) \<longrightarrow>
          sub_params sub ''filters'' = Some (ParamFilters (prefferedFilters props)))
     \<and> ((\<forall>lp. liveParams props = Some lp \<longrightarrow> lp ''meta'' = None) \<longrightarrow>
          sub_params sub ''meta'' = Some (ParamMeta (combinedMeta deps props)))"
proof -
  let ?sub = "\<lparr> sub_resource = identifier' deps props,
         sub_types = [''*''],
         sub_params = subscriptionParams deps props,
         sub_channel = ''resources/'' @ template (resourceName deps props),
         sub_enabled = isEnabled props,
         sub_liveMode = liveMode props,
         sub_onLiveEvent = onLiveEvent props \<rparr>"
  have one: "useResourceSubscription deps props = [?sub]"
    by (simp add: useResourceSubscription_def)
  have channel: "\<forall>r. resource deps props = Some r \<longrightarrow>
      ''resources/'' @ template (resourceName deps props) = ''resources/'' @ name r"
    by (simp add: resourceName_def template_def)
  have over: "\<forall>lp k v. liveParams props = Some lp \<and> lp k = Some v \<longrightarrow>
      subscriptionParams deps props k = Some v"
    by (simp add: subscriptionParams_def map_add_def)
  have keep: "subscriptionParams deps props k
      = [ ''meta'' \<mapsto> ParamMeta (combinedMeta deps props),
          ''metaData'' \<mapsto> ParamMeta (combinedMeta deps props),
          ''pagination'' \<mapsto> ParamPagination (prefferedPagination deps props),
          ''hasPagination'' \<mapsto> ParamBool (isServerPagination deps props),
          ''sort'' \<mapsto> ParamSorters (prefferedSorters props),
          ''sorters'' \<mapsto> ParamSorters (prefferedSorters props),
          ''filters'' \<mapsto> ParamFilters (prefferedFilters props),
          ''subscriptionType'' \<mapsto> ParamString ''useList'' ] k"
    if "\<forall>lp. liveParams props = Some lp \<longrightarrow> lp k = None" for k
    using that by (cases "liveParams props") (simp_all add: subscriptionParams_def map_add_def)
  have "sub_params ?sub ''pagination'' = Some (ParamPagination (prefferedPagination deps props))"
    if "\<forall>lp. liveParams props = Some lp \<longrightarrow> lp ''pagination'' = None"
    using keep [OF that] by simp
  moreover have "sub_params ?sub ''sorters'' = Some (ParamSorters (prefferedSorters props))"
    if "\<forall>lp. liveParams props = Some lp \<longrightarrow> lp ''sorters'' = None"
    using keep [OF that] by simp
  moreover have "sub_params ?sub ''filters'' = Some (ParamFilters (prefferedFilters props))"
    if "\<forall>lp. liveParams props = Some lp \<longrightarrow> lp ''filters'' = None"
    using keep [OF that] by simp
  moreover have "sub_params ?sub ''meta'' = Some (ParamMeta (combinedMeta deps props))"
    if "\<forall>lp. liveParams props = Some lp \<longrightarrow> lp ''meta'' = None"
    using keep [OF that] by simp
  moreover have "sub_params ?sub
      = [ ''meta'' \<mapsto> ParamMeta (combinedMeta deps props),
          ''metaData'' \<mapsto> ParamMeta (combinedMeta deps props),
          ''pagination'' \<mapsto> ParamPagination (prefferedPagination deps props),
          ''hasPagination'' \<mapsto> ParamBool (isServerPagination deps props),
          ''sort'' \<mapsto> ParamSorters (prefferedSorters props),
          ''sorters'' \<mapsto> ParamSorters (prefferedSorters props),
          ''filters'' \<mapsto> ParamFilters (prefferedFilters props),
          ''subscriptionType'' \<mapsto> ParamString ''useList'' ]
        ++ (case liveParams props of None \<Rightarrow> Map.empty | Some lp \<Rightarrow> lp)"
    by (simp add: subscriptionParams_def)
  moreover have "sub_channel ?sub = ''resources/'' @ template (map_option name (resource deps props))"
    by (simp add: resourceName_def)
  moreover have "sub_enabled ?sub
      = (queryOptions_enabled props = None \<or> queryOptions_enabled props = Some True)"
    by (simp add: isEnabled_def)
  ultimately show ?thesis
    using one channel over by (intro exI [of _ ?sub]) simp
qed

text \<open>
  For the resource \<^verbatim>\<open>posts\<close> and live parameters that set \<^verbatim>\<open>filters\<close>: the channel
  \<^verbatim>\<open>resources/posts\<close>, the pagination of the hook and the filters of the live
  parameters, in a call that is enabled; without live parameters, the filters of the
  hook.
\<close>

theorem subscription_registered_once_witness:
  "resource sampleDeps liveProps = Some \<lparr> name = ''posts'' \<rparr>
   \<and> liveParams liveProps = Some [''filters'' \<mapsto> ParamAny 7]
   \<and> map sub_channel (useResourceSubscription sampleDeps liveProps) = [''resources/posts'']
   \<and> map sub_types (useResourceSubscription sampleDeps liveProps) = [[''*'']]
   \<and> map sub_resource (useResourceSubscription sampleDeps liveProps) = [Some ''posts'']
   \<and> map sub_enabled (useResourceSubscription sampleDeps liveProps) = [True]
   \<and> map (\<lambda>sub. sub_params sub ''filters'') (useResourceSubscription sampleDeps liveProps)
       = [Some (ParamAny 7)]
   \<and> map (\<lambda>sub. sub_params sub ''pagination'') (useResourceSubscription sampleDeps liveProps)
       = [Some (ParamPagination \<lparr> current = 1, pageSize = 10, mode = server \<rparr>)]
   \<and> map (\<lambda>sub. sub_params sub ''sorters'') (useResourceSubscription sampleDeps liveProps)
       = [Some (ParamSorters None)]
   \<and> map (\<lambda>sub. sub_params sub ''meta'') (useResourceSubscription sampleDeps liveProps)
       = [Some (ParamMeta Map.empty)]
   \<and> liveParams sampleProps = None
   \<and> map (\<lambda>sub. sub_params sub ''filters'') (useResourceSubscription sampleDeps sampleProps)
       = [Some (ParamFilters None)]"
proof -
  have r: "resource sampleDeps liveProps = Some \<lparr> name = ''posts'' \<rparr>"
    by (simp add: resource_def sampleDeps_def liveProps_def sampleProps_def)
  have i: "identifier' sampleDeps liveProps = Some ''posts''"
    by (simp add: identifier'_def sampleDeps_def liveProps_def sampleProps_def)
  have lp: "liveParams liveProps = Some [''filters'' \<mapsto> ParamAny 7]"
    by (simp add: liveProps_def)
  have en: "queryOptions_enabled liveProps = None"
    by (simp add: queryOptions_enabled_def liveProps_def sampleProps_def)
  have p: "prefferedPagination sampleDeps liveProps = \<lparr> current = 1, pageSize = 10, mode = server \<rparr>"
    by (simp add: prefferedPagination_def sample_defs option_defs)
  have so: "prefferedSorters liveProps = None"
    by (simp add: prefferedSorters_def pickNotDeprecated_def liveProps_def sampleProps_def)
  have cm: "combinedMeta sampleDeps liveProps = Map.empty"
    by (simp add: combinedMeta_def preferredMeta_def pickNotDeprecated_def sampleDeps_def
        liveProps_def sampleProps_def)
  obtain sub where s: "useResourceSubscription sampleDeps liveProps = [sub]"
    and t: "sub_types sub = [''*'']"
    and sr: "sub_resource sub = identifier' sampleDeps liveProps"
    and se: "sub_enabled sub
         = (queryOptions_enabled liveProps = None \<or> queryOptions_enabled liveProps = Some True)"
    and c: "\<forall>r. resource sampleDeps liveProps = Some r \<longrightarrow> sub_channel sub = ''resources/'' @ name r"
    and o: "\<forall>lp k v. liveParams liveProps = Some lp \<and> lp k = Some v \<longrightarrow> sub_params sub k = Some v"
    and g: "(\<forall>lp. liveParams liveProps = Some lp \<longrightarrow> lp ''pagination'' = None) \<longrightarrow>
          sub_params sub ''pagination'' = Some (ParamPagination (prefferedPagination sampleDeps liveProps))"
    and gs: "(\<forall>lp. liveParams liveProps = Some lp \<longrightarrow> lp ''sorters'' = None) \<longrightarrow>
          sub_params sub ''sorters'' = Some (ParamSorters (prefferedSorters liveProps))"
    and gm: "(\<forall>lp. liveParams liveProps = Some lp \<longrightarrow> lp ''meta'' = None) \<longrightarrow>
          sub_params sub ''meta'' = Some (ParamMeta (combinedMeta sampleDeps liveProps))"
    using subscription_registered_once [of sampleDeps liveProps] by blast
  from c r have "sub_channel sub = ''resources/posts''" by simp
  moreover from o lp have "sub_params sub ''filters'' = Some (ParamAny 7)" by simp
  moreover from g lp p have "sub_params sub ''pagination''
      = Some (ParamPagination \<lparr> current = 1, pageSize = 10, mode = server \<rparr>)" by simp
  moreover from gs lp so have "sub_params sub ''sorters'' = Some (ParamSorters None)" by simp
  moreover from gm lp cm have "sub_params sub ''meta'' = Some (ParamMeta Map.empty)" by simp
  moreover from sr i have "sub_resource sub = Some ''posts''" by simp
  moreover from se en have "sub_enabled sub" by simp
  moreover have ln: "liveParams sampleProps = None"
    by (simp add: sampleProps_def)
  moreover have "map (\<lambda>sub. sub_params sub ''filters'') (useResourceSubscription sampleDeps sampleProps)
       = [Some (ParamFilters None)]"
  proof -
    have fs: "prefferedFilters sampleProps = None"
      by (simp add: prefferedFilters_def pickNotDeprecated_def sampleProps_def)
    obtain sub' where s': "useResourceSubscription sampleDeps sampleProps = [sub']"
      and gf: "(\<forall>lp. liveParams sampleProps = Some lp \<longrightarrow> lp ''filters'' = None) \<longrightarrow>
          sub_params sub' ''filters'' = Some (ParamFilters (prefferedFilters sampleProps))"
      using subscription_registered_once [of sampleDeps sampleProps] by blast
    from gf ln fs have "sub_params sub' ''filters'' = Some (ParamFilters None)" by simp
    with s' show ?thesis by simp
  qed
  ultimately show ?thesis using r lp s t by simp
qed

text \<open>
  Claim C7 as stated does not hold for every invocation: for a caller that sets
  \<^verbatim>\<open>queryOptions.enabled\<close> to false, the one call to \<^verbatim>\<open>useResourceSubscription\<close> is
  made with \<^verbatim>\<open>enabled: false\<close>, so no subscription is registered.
\<close>

theorem subscription_disabled_with_query:
  "queryOptions_enabled callbackProps = Some False
   \<and> map sub_enabled (useResourceSubscription sampleDeps callbackProps) = [False]"
  by (simp add: useResourceSubscription_def isEnabled_def queryOptions_enabled_def
      callbackProps_def)

text \<open>
  Claim C9. The object from which the query key is built has the resolved pagination if
  and only if the mode is \<^verbatim>\<open>server\<close>; under client-side pagination it has none, so
  that two calls that differ only in the page they ask for (in \<^verbatim>\<open>pagination\<close>, or in
  \<^verbatim>\<open>config.pagination\<close>), both client-side, get the same key. It always has the
  merged filters and the server-pagination flag.
\<close>

theorem query_key_pagination:
  "(k_pagination (listKeyConfig deps props) \<noteq> None
      \<longleftrightarrow> mode (prefferedPagination deps props) = server)
   \<and> (mode (prefferedPagination deps props) = server \<longrightarrow>
        k_pagination (listKeyConfig deps props) = Some (prefferedPagination deps props))
   \<and> (mode (prefferedPagination deps props) = client \<longrightarrow>
        k_pagination (listKeyConfig deps props) = None)
   \<and> k_filters (listKeyConfig deps props) = prefferedFilters props
   \<and> k_hasPagination (listKeyConfig deps props) = isServerPagination deps props
   \<and> queryKey' deps props
       = queryKeys deps (identifier' deps props) (pickedDataProvider deps props)
           (preferredMeta props) (listKeyConfig deps props)
   \<and> uq_queryKey (useQueryArgs deps props) = queryKey' deps props
   \<and> (\<forall>pg. mode (prefferedPagination deps props) = client
           \<and> mode (prefferedPagination deps (props\<lparr> pagination := pg \<rparr>)) = client \<longrightarrow>
         queryKey' deps (props\<lparr> pagination := pg \<rparr>) = queryKey' deps props)
   \<and> (\<forall>c cp. config props = Some c
           \<and> mode (prefferedPagination deps props) = client
           \<and> mode (prefferedPagination deps
                 (props\<lparr> config := Some (c\<lparr> c_pagination := cp \<rparr>) \<rparr>)) = client \<longrightarrow>
         queryKey' deps (props\<lparr> config := Some (c\<lparr> c_pagination := cp \<rparr>) \<rparr>)
           = queryKey' deps props)"
proof -
  have m: "mode (prefferedPagination deps props) = server \<or> mode (prefferedPagination deps props) = client"
    by (cases "mode (prefferedPagination deps props)") simp_all
  have same: "queryKey' deps (props\<lparr> pagination := pg \<rparr>) = queryKey' deps props"
    if "mode (prefferedPagination deps props) = client"
      and "mode (prefferedPagination deps (props\<lparr> pagination := pg \<rparr>)) = client" for pg
  proof -
    have "listKeyConfig deps (props\<lparr> pagination := pg \<rparr>) = listKeyConfig deps props"
      using that by (simp add: listKeyConfig_def isServerPagination_def prefferedFilters_def)
    then show ?thesis
      by (simp add: queryKey'_def queryKey_list_def identifier'_def pickedDataProvider_def
          preferredMeta_def)
  qed
  have same_config:
    "queryKey' deps (props\<lparr> config := Some (c\<lparr> c_pagination := cp \<rparr>) \<rparr>) = queryKey' deps props"
    if "config props = Some c" and "mode (prefferedPagination deps props) = client"
      and "mode (prefferedPagination deps
             (props\<lparr> config := Some (c\<lparr> c_pagination := cp \<rparr>) \<rparr>)) = client" for c cp
  proof -
    have "listKeyConfig deps (props\<lparr> config := Some (c\<lparr> c_pagination := cp \<rparr>) \<rparr>)
        = listKeyConfig deps props"
      using that
      by (simp add: listKeyConfig_def isServerPagination_def prefferedFilters_def)
    then show ?thesis
      by (simp add: queryKey'_def queryKey_list_def identifier'_def pickedDataProvider_def
          preferredMeta_def)
  qed
  have rest: "k_filters (listKeyConfig deps props) = prefferedFilters props"
    "k_hasPagination (listKeyConfig deps props) = isServerPagination deps props"
    "queryKey' deps props
       = queryKeys deps (identifier' deps props) (pickedDataProvider deps props)
           (preferredMeta props) (listKeyConfig deps props)"
    "uq_queryKey (useQueryArgs deps props) = queryKey' deps props"
    by (simp_all add: listKeyConfig_def queryKey'_def queryKey_list_def useQueryArgs_def)
  have pg: "k_pagination (listKeyConfig deps props)
      = (if mode (prefferedPagination deps props) = server
         then Some (prefferedPagination deps props) else None)"
    by (simp add: listKeyConfig_def isServerPagination_def)
  show ?thesis using m same same_config rest pg by auto
qed

text \<open>
  Under client-side pagination page 2 and page 3 have the same sample key, which lists no
  pagination, whether the page is asked for in \<^verbatim>\<open>pagination\<close> or in
  \<^verbatim>\<open>config.pagination\<close>; under server-side pagination the key lists page 1 and size
  10.
\<close>

theorem query_key_pagination_witness:
  "mode (prefferedPagination sampleDeps clientProps) = client
   \<and> mode (prefferedPagination sampleDeps
        (clientProps\<lparr> pagination :=
           Some \<lparr> p_current = Some 3, p_pageSize = Some 2, p_mode = Some client \<rparr> \<rparr>)) = client
   \<and> current (prefferedPagination sampleDeps clientProps) = 2
   \<and> current (prefferedPagination sampleDeps
        (clientProps\<lparr> pagination :=
           Some \<lparr> p_current = Some 3, p_pageSize = Some 2, p_mode = Some client \<rparr> \<rparr>)) = 3
   \<and> queryKey' sampleDeps
        (clientProps\<lparr> pagination :=
           Some \<lparr> p_current = Some 3, p_pageSize = Some 2, p_mode = Some client \<rparr> \<rparr>)
       = queryKey' sampleDeps clientProps
   \<and> k_pagination (listKeyConfig sampleDeps clientProps) = None
   \<and> queryKey' sampleDeps clientProps = [0]
   \<and> config configProps
       = Some \<lparr> c_pagination = Some \<lparr> p_current = Some 2, p_pageSize = Some 2, p_mode = None \<rparr>,
                c_hasPagination = Some False, c_sort = None, c_filters = None \<rparr>
   \<and> prefferedPagination sampleDeps configProps = \<lparr> current = 2, pageSize = 2, mode = client \<rparr>
   \<and> prefferedPagination sampleDeps
        (configProps\<lparr> config :=
           Some \<lparr> c_pagination = Some \<lparr> p_current = Some 3, p_pageSize = Some 2, p_mode = None \<rparr>,
                  c_hasPagination = Some False, c_sort = None, c_filters = None \<rparr> \<rparr>)
       = \<lparr> current = 3, pageSize = 2, mode = client \<rparr>
   \<and> queryKey' sampleDeps
        (configProps\<lparr> config :=
           Some \<lparr> c_pagination = Some \<lparr> p_current = Some 3, p_pageSize = Some 2, p_mode = None \<rparr>,
                  c_hasPagination = Some False, c_sort = None, c_filters = None \<rparr> \<rparr>)
       = queryKey' sampleDeps configProps
   \<and> mode (prefferedPagination sampleDeps sampleProps) = server
   \<and> k_pagination (listKeyConfig sampleDeps sampleProps)
       = Some \<lparr> current = 1, pageSize = 10, mode = server \<rparr>
   \<and> queryKey' sampleDeps sampleProps = [1, 10, 1]"
proof -
  let ?page3 = "clientProps\<lparr> pagination :=
           Some \<lparr> p_current = Some 3, p_pageSize = Some 2, p_mode = Some client \<rparr> \<rparr>"
  have p3: "prefferedPagination sampleDeps ?page3 = \<lparr> current = 3, pageSize = 2, mode = client \<rparr>"
    by (simp add: prefferedPagination_def sample_defs option_defs)
  have c: "mode (prefferedPagination sampleDeps clientProps) = client"
    and c3: "mode (prefferedPagination sampleDeps ?page3) = client"
    and s: "mode (prefferedPagination sampleDeps sampleProps) = server"
    by (simp_all add: prefferedPagination_clientProps p3 prefferedPagination_sampleProps)
  note k = query_key_pagination [of sampleDeps clientProps]
  note ks = query_key_pagination [of sampleDeps sampleProps]
  from k c c3 have same: "queryKey' sampleDeps ?page3 = queryKey' sampleDeps clientProps"
    by blast
  from k c have none: "k_pagination (listKeyConfig sampleDeps clientProps) = None"
    by blast
  from ks s have some: "k_pagination (listKeyConfig sampleDeps sampleProps)
      = Some (prefferedPagination sampleDeps sampleProps)"
    by blast
  have hc: "k_hasPagination (listKeyConfig sampleDeps clientProps) = False"
    and hs: "k_hasPagination (listKeyConfig sampleDeps sampleProps) = True"
    by (simp_all add: listKeyConfig_def isServerPagination_def prefferedPagination_clientProps
        prefferedPagination_sampleProps)
  have q: "queryKeys sampleDeps i provider m cfg
      = (case k_pagination cfg of None \<Rightarrow> [] | Some p \<Rightarrow> [current p, pageSize p])
        @ [if k_hasPagination cfg then 1 else 0]" for i provider m cfg
    by (simp add: sampleDeps_def)
  have kc: "queryKey' sampleDeps clientProps = [0]"
    using none hc by (simp add: queryKey'_def queryKey_list_def q)
  have ksm: "queryKey' sampleDeps sampleProps = [1, 10, 1]"
    using some hs
    by (simp add: queryKey'_def queryKey_list_def prefferedPagination_sampleProps q)
  let ?c2 = "\<lparr> c_pagination = Some \<lparr> p_current = Some 2, p_pageSize = Some 2, p_mode = None \<rparr>,
               c_hasPagination = Some False, c_sort = None :: string option,
               c_filters = None :: string option \<rparr>"
  let ?cp3 = "Some \<lparr> p_current = Some 3, p_pageSize = Some 2, p_mode = None \<rparr>"
  have cfg: "config configProps = Some ?c2"
    by (simp add: configProps_def)
  have upd: "?c2\<lparr> c_pagination := ?cp3 \<rparr>
      = \<lparr> c_pagination = ?cp3, c_hasPagination = Some False, c_sort = None, c_filters = None \<rparr>"
    by simp
  have g2: "prefferedPagination sampleDeps configProps = \<lparr> current = 2, pageSize = 2, mode = client \<rparr>"
    by (simp add: prefferedPagination_def sample_defs option_defs)
  have g3: "prefferedPagination sampleDeps
        (configProps\<lparr> config := Some (?c2\<lparr> c_pagination := ?cp3 \<rparr>) \<rparr>)
      = \<lparr> current = 3, pageSize = 2, mode = client \<rparr>"
    by (simp add: prefferedPagination_def sample_defs option_defs)
  note kg = query_key_pagination [of sampleDeps configProps]
  from kg cfg g2 g3
  have same_config: "queryKey' sampleDeps
        (configProps\<lparr> config := Some (?c2\<lparr> c_pagination := ?cp3 \<rparr>) \<rparr>)
      = queryKey' sampleDeps configProps"
    by (metis RequiredPagination.select_convs(3))
  show ?thesis
    using c c3 s same none some kc ksm cfg g2 g3 same_config
    by (simp add: prefferedPagination_clientProps p3 prefferedPagination_sampleProps)
qed

text \<open>
  Claim C10. When \<^verbatim>\<open>queryOptions.enabled\<close> is defined, the query and the subscription are
  both enabled as it says. When it is undefined, the query is enabled exactly when the
  resource has a name that is not empty, and the subscription is enabled; so with
  \<^verbatim>\<open>queryOptions.enabled\<close> undefined and no resource name, the subscription is enabled
  and the query is not.
\<close>

theorem enabled_flags:
  "(\<forall>b. queryOptions_enabled props = Some b \<longrightarrow>
        enabled deps props = b
        \<and> map sub_enabled (useResourceSubscription deps props) = [b])
   \<and> (queryOptions_enabled props = None \<longrightarrow>
        enabled deps props = (\<exists>n. resourceName deps props = Some n \<and> n \<noteq> [])
        \<and> map sub_enabled (useResourceSubscription deps props) = [True])
   \<and> (queryOptions_enabled props = None
        \<and> (resourceName deps props = None \<or> resourceName deps props = Some []) \<longrightarrow>
        \<not> enabled deps props
        \<and> map sub_enabled (useResourceSubscription deps props) = [True])
   \<and> uq_enabled (useQueryArgs deps props) = enabled deps props"
  by (auto simp: enabled_def isEnabled_def useResourceSubscription_def useQueryArgs_def
      split: option.splits)

text \<open>
  A caller that sets \<^verbatim>\<open>enabled\<close> to false switches both off; with no option and no
  resource name the query is off and the subscription on; with the resource \<^verbatim>\<open>posts\<close>
  both are on.
\<close>

theorem enabled_flags_witness:
  "queryOptions_enabled callbackProps = Some False
   \<and> \<not> enabled sampleDeps callbackProps
   \<and> map sub_enabled (useResourceSubscription sampleDeps callbackProps) = [False]
   \<and> queryOptions_enabled unnamedProps = None
   \<and> resourceName sampleDeps unnamedProps = None
   \<and> \<not> enabled sampleDeps unnamedProps
   \<and> map sub_enabled (useResourceSubscription sampleDeps unnamedProps) = [True]
   \<and> queryOptions_enabled sampleProps = None
   \<and> resourceName sampleDeps sampleProps = Some ''posts''
   \<and> enabled sampleDeps sampleProps
   \<and> map sub_enabled (useResourceSubscription sampleDeps sampleProps) = [True]"
proof -
  have e: "queryOptions_enabled callbackProps = Some False"
    "queryOptions_enabled unnamedProps = None"
    "queryOptions_enabled sampleProps = None"
    by (simp_all add: queryOptions_enabled_def callbackProps_def unnamedProps_def sampleProps_def)
  have r: "resourceName sampleDeps unnamedProps = None"
    "resourceName sampleDeps sampleProps = Some ''posts''"
    by (simp_all add: resourceName_def resource_def sampleDeps_def unnamedProps_def sampleProps_def)
  have "\<not> enabled sampleDeps callbackProps"
    "map sub_enabled (useResourceSubscription sampleDeps callbackProps) = [False]"
    using enabled_flags [of callbackProps sampleDeps] e(1) by blast+
  moreover have "\<not> enabled sampleDeps unnamedProps"
    "map sub_enabled (useResourceSubscription sampleDeps unnamedProps) = [True]"
    using enabled_flags [of unnamedProps sampleDeps] e(2) r(1) by simp_all
  moreover have "enabled sampleDeps sampleProps"
    "map sub_enabled (useResourceSubscription sampleDeps sampleProps) = [True]"
    using enabled_flags [of sampleProps sampleDeps] e(3) r(2) by simp_all
  ultimately show ?thesis using e r by simp
qed

end
